theory Spec2Isabelle
  imports Complex_Main "HOL-Library.Word"
begin

section \<open>Values of the mapping runtime\<close>

text \<open>
  The mappings are AssemblyScript over the graph-ts library. \<open>BigInt\<close> is an unbounded
  integer (\<open>int\<close>), \<open>i32\<close> is a 32-bit two's complement integer (an \<open>int\<close> with the
  wrap-around written out by \<open>i32\<close> below), \<open>BigDecimal\<close> is kept as an exact rational,
  \<open>Bytes\<close> and \<open>Address\<close> are byte lists, strings are \<open>string\<close>.
\<close>

type_synonym BigInt = int
type_synonym BigDecimal = rat
type_synonym Bytes = "8 word list"

definition bigZero :: BigInt where
  "bigZero = 0"

text \<open>The value of a 32-bit register that holds the integer \<open>x\<close>.\<close>

definition i32 :: "int \<Rightarrow> int" where
  "i32 x = (x + 2 ^ 31) mod 2 ^ 32 - 2 ^ 31"

text \<open>\<open>a << b\<close> on \<open>i32\<close>: only the low five bits of the shift count are used.\<close>

definition shl_i32 :: "int \<Rightarrow> int \<Rightarrow> int" where
  "shl_i32 a b = i32 (a * 2 ^ nat (b mod 32))"

text \<open>
  \<open>BigInt.toI32()\<close>. The library reads the two's complement bytes of the number,
  least significant first: it asserts ("overflow converting ... to i32") that every
  byte past the fourth is sign padding, and returns the first four bytes as an \<open>i32\<close>.
  The assertion holds from \<open>- 2 ^ 32\<close> up to \<open>2 ^ 32 - 1\<close> and stops the handler
  otherwise; inside that range a number that does not fit 32 bits wraps around, so
  \<open>2 ^ 31\<close> comes out as \<open>- 2 ^ 31\<close>.
\<close>

definition toI32 :: "BigInt \<Rightarrow> int option" where
  "toI32 x = (if - (2 ^ 32) \<le> x \<and> x < 2 ^ 32 then Some (i32 x) else None)"

text \<open>
  \<open>BigInt.div\<close>: the quotient truncated towards zero; the host stops the handler on a
  zero divisor.
\<close>

definition BigInt_div :: "BigInt \<Rightarrow> BigInt \<Rightarrow> BigInt option" where
  "BigInt_div a b = (if b = 0 then None else Some (sgn a * sgn b * (\<bar>a\<bar> div \<bar>b\<bar>)))"

text \<open>
  \<open>BigInt.divDecimal\<close>: the decimal quotient, kept exact here (the host rounds to 34
  significant digits, which changes nothing for a quotient with a shorter decimal
  expansion); the host stops the handler on a zero divisor.
\<close>

definition divDecimal :: "BigInt \<Rightarrow> BigDecimal \<Rightarrow> BigDecimal option" where
  "divDecimal a b = (if b = 0 then None else Some (of_int a / b))"

definition toBigDecimal :: "BigInt \<Rightarrow> BigDecimal" where
  "toBigDecimal a = of_int a"

text \<open>\<open>BigInt.toString()\<close>: the decimal digits, with a minus sign below zero.\<close>

definition digit_char :: "nat \<Rightarrow> char" where
  "digit_char d = ''0123456789'' ! d"

function nat_toString :: "nat \<Rightarrow> string" where
  "nat_toString n =
     (if n < 10 then [digit_char n] else nat_toString (n div 10) @ [digit_char (n mod 10)])"
  by pat_completeness auto
termination
  by (relation "measure (\<lambda>n. n)") auto

definition BigInt_toString :: "BigInt \<Rightarrow> string" where
  "BigInt_toString x =
     (if x < 0 then CHR ''-'' # nat_toString (nat (- x)) else nat_toString (nat x))"

text \<open>\<open>Bytes.toHexString()\<close>: \<open>0x\<close> and two lower-case hexadecimal digits a byte.\<close>

definition hex_char :: "nat \<Rightarrow> char" where
  "hex_char d = ''0123456789abcdef'' ! d"

definition toHexString :: "Bytes \<Rightarrow> string" where
  "toHexString bs =
     ''0x'' @ concat (map (\<lambda>b. [hex_char (unat b div 16), hex_char (unat b mod 16)]) bs)"

text \<open>
  \<open>Bytes.toString()\<close>: the host decodes the bytes as UTF-8 and trims the NUL characters
  at the end. The decoding is lossy: every maximal part of the input that starts a
  UTF-8 sequence and cannot be completed is replaced by the replacement character
  U+FFFD. The string is kept here as its UTF-8 bytes.
\<close>

definition utf8_cont :: "nat \<Rightarrow> bool" where
  "utf8_cont b \<longleftrightarrow> 0x80 \<le> b \<and> b \<le> 0xBF"

text \<open>The second byte that may follow the first byte of a sequence of three or four.\<close>

definition utf8_second3 :: "nat \<Rightarrow> nat \<Rightarrow> bool" where
  "utf8_second3 b c \<longleftrightarrow>
     (if b = 0xE0 then 0xA0 \<le> c \<and> c \<le> 0xBF
      else if b = 0xED then 0x80 \<le> c \<and> c \<le> 0x9F
      else 0x80 \<le> c \<and> c \<le> 0xBF)"

definition utf8_second4 :: "nat \<Rightarrow> nat \<Rightarrow> bool" where
  "utf8_second4 b c \<longleftrightarrow>
     (if b = 0xF0 then 0x90 \<le> c \<and> c \<le> 0xBF
      else if b = 0xF4 then 0x80 \<le> c \<and> c \<le> 0x8F
      else 0x80 \<le> c \<and> c \<le> 0xBF)"

definition replacement_character :: "nat list" where
  "replacement_character = [0xEF, 0xBF, 0xBD]"

fun utf8_lossy :: "nat list \<Rightarrow> nat list" where
  "utf8_lossy [] = []"
| "utf8_lossy (b # rest) =
     (if b < 0x80 then b # utf8_lossy rest
      else if 0xC2 \<le> b \<and> b \<le> 0xDF then
        (case rest of
           [] \<Rightarrow> replacement_character
         | c # rest1 \<Rightarrow>
             if utf8_cont c then b # c # utf8_lossy rest1
             else replacement_character @ utf8_lossy rest)
      else if 0xE0 \<le> b \<and> b \<le> 0xEF then
        (case rest of
           [] \<Rightarrow> replacement_character
         | c # rest1 \<Rightarrow>
             if utf8_second3 b c then
               (case rest1 of
                  [] \<Rightarrow> replacement_character
                | d # rest2 \<Rightarrow>
                    if utf8_cont d then b # c # d # utf8_lossy rest2
                    else replacement_character @ utf8_lossy rest1)
             else replacement_character @ utf8_lossy rest)
      else if 0xF0 \<le> b \<and> b \<le> 0xF4 then
        (case rest of
           [] \<Rightarrow> replacement_character
         | c # rest1 \<Rightarrow>
             if utf8_second4 b c then
               (case rest1 of
                  [] \<Rightarrow> replacement_character
                | d # rest2 \<Rightarrow>
                    if utf8_cont d then
                      (case rest2 of
                         [] \<Rightarrow> replacement_character
                       | e # rest3 \<Rightarrow>
                           if utf8_cont e then b # c # d # e # utf8_lossy rest3
                           else replacement_character @ utf8_lossy rest2)
                    else replacement_character @ utf8_lossy rest1)
             else replacement_character @ utf8_lossy rest)
      else replacement_character @ utf8_lossy rest)"

definition trim_nuls :: "nat list \<Rightarrow> nat list" where
  "trim_nuls bs = rev (dropWhile (\<lambda>b. b = 0) (rev bs))"

definition Bytes_toString :: "Bytes \<Rightarrow> string" where
  "Bytes_toString bs = map char_of (trim_nuls (utf8_lossy (map unat bs)))"

section \<open>Entities and the store\<close>

text \<open>
  One record per entity of the schema that the handlers touch. Field names are the
  schema's; where two entities (or an entity and an event) share a field name, the
  later one carries a prefix. The \<open>id\<close> of an entity is its \<open>..._id\<close> field.
\<close>

record MarketPosition =
  mp_id :: string
  market :: string
  user :: string
  outcomeIndex :: BigInt
  quantityBought :: BigInt
  quantitySold :: BigInt
  netQuantity :: BigInt
  valueBought :: BigInt
  valueSold :: BigInt
  netValue :: BigInt

record Transaction =
  tx_type :: string
  tx_user :: string
  tx_market :: string
  tx_outcomeIndex :: BigInt
  outcomeTokensAmount :: BigInt
  tradeAmount :: BigInt

record FixedProductMarketMaker =
  fpmm_outcomeSlotCount :: int
  outcomeTokenPrices :: "BigDecimal list"

record Condition =
  condition_id :: string
  cond_oracle :: Bytes
  questionId :: Bytes
  fixedProductMarketMakers :: "string list"
  outcomeSlotCount :: int
  resolutionTimestamp :: "BigInt option"
  payouts :: "BigDecimal list option"
  payoutNumerators :: "BigInt list option"
  payoutDenominator :: "BigInt option"
  resolutionHash :: "Bytes option"

text \<open>The audit rows. \<open>Split\<close> and \<open>Merge\<close> have the same fields.\<close>

record Split =
  row_timestamp :: BigInt
  row_stakeholder :: string
  row_collateralToken :: string
  row_parentCollectionId :: Bytes
  row_condition :: string
  row_partition :: "BigInt list"
  row_amount :: BigInt

type_synonym Merge = Split

record Redemption =
  red_timestamp :: BigInt
  red_redeemer :: string
  red_collateralToken :: string
  red_parentCollectionId :: Bytes
  red_condition :: string
  red_indexSets :: "BigInt list"
  red_payout :: BigInt

record Global =
  numConditions :: int
  numOpenConditions :: int
  numClosedConditions :: int
  numTraders :: BigInt
  tradesQuantity :: BigInt
  buysQuantity :: BigInt
  sellsQuantity :: BigInt
  collateralVolume :: BigInt
  scaledCollateralVolume :: BigDecimal
  collateralFees :: BigInt
  scaledCollateralFees :: BigDecimal
  collateralBuyVolume :: BigInt
  scaledCollateralBuyVolume :: BigDecimal
  collateralSellVolume :: BigInt
  scaledCollateralSellVolume :: BigDecimal
  openInterest :: BigInt
  scaledOpenInterest :: BigDecimal

text \<open>
  \<open>Account\<close> is written only by the account helpers, whose file is not among the
  sources; the handlers read nothing of it.
\<close>

record Account =
  creationTimestamp :: BigInt
  lastSeenTimestamp :: BigInt

text \<open>A line of the log: \<open>log.error(format, arguments)\<close>.\<close>

datatype log_entry = LogError string "string list"

text \<open>
  The entity store, one table per entity type, keyed by entity id, and the log the
  handlers have written so far.
\<close>

record store =
  marketPositions :: "string \<rightharpoonup> MarketPosition"
  transactions :: "string \<rightharpoonup> Transaction"
  marketMakers :: "string \<rightharpoonup> FixedProductMarketMaker"
  conditions :: "string \<rightharpoonup> Condition"
  splits :: "string \<rightharpoonup> Split"
  merges :: "string \<rightharpoonup> Merge"
  redemptions :: "string \<rightharpoonup> Redemption"
  globals :: "string \<rightharpoonup> Global"
  accounts :: "string \<rightharpoonup> Account"
  logs :: "log_entry list"

text \<open>
  How a computation can end other than by returning: stopped by a thrown error or a
  runtime trap, or never returning. For a handler, \<open>Abort\<close> carries the store and log
  as they were at that point (the host drops the entity writes of a stopped handler).
\<close>

datatype error =
    Thrown string
  | NullReference
  | IndexOutOfRange
  | DivisionByZero
  | I32Overflow

datatype 's failure = Abort error 's | Diverges

type_synonym result = "store failure + store"

section \<open>The position ledger (utils/market-positions-utils)\<close>

text \<open>
  The operations on positions for a trade, a split, a merge and a redemption. The two
  liquidity operations of the file save their positions through
  \<open>updateNetPositionAndSave\<close> as well; they need prices and a maximum from files that
  are not among the sources and are left out here.
\<close>

text \<open>\<open>MarketPosition.load(id)\<close>: the entity stored under \<open>id\<close>, whose id is \<open>id\<close>.\<close>

definition MarketPosition_load :: "store \<Rightarrow> string \<Rightarrow> MarketPosition option" where
  "MarketPosition_load st k = map_option (\<lambda>p. p\<lparr>mp_id := k\<rparr>) (marketPositions st k)"

definition MarketPosition_save :: "store \<Rightarrow> MarketPosition \<Rightarrow> store" where
  "MarketPosition_save st p = st\<lparr>marketPositions := (marketPositions st)(mp_id p \<mapsto> p)\<rparr>"

definition log_error :: "store \<Rightarrow> string \<Rightarrow> string list \<Rightarrow> store" where
  "log_error st fmt args = st\<lparr>logs := logs st @ [LogError fmt args]\<rparr>"

definition positionId :: "string \<Rightarrow> string \<Rightarrow> BigInt \<Rightarrow> string" where
  "positionId usr mkt idx = usr @ mkt @ BigInt_toString idx"

definition getMarketPosition :: "store \<Rightarrow> string \<Rightarrow> string \<Rightarrow> BigInt \<Rightarrow> MarketPosition" where
  "getMarketPosition st usr mkt idx =
     (case MarketPosition_load st (positionId usr mkt idx) of
        None \<Rightarrow>
          \<lparr>mp_id = positionId usr mkt idx, market = mkt, user = usr, outcomeIndex = idx,
           quantityBought = bigZero, quantitySold = bigZero, netQuantity = bigZero,
           valueBought = bigZero, valueSold = bigZero, netValue = bigZero\<rparr>
      | Some position \<Rightarrow> position)"

definition updateNetPositionAndSave :: "store \<Rightarrow> MarketPosition \<Rightarrow> store" where
  "updateNetPositionAndSave st position0 =
     (let position = position0\<lparr>netQuantity := quantityBought position0 - quantitySold position0,
                                netValue := valueBought position0 - valueSold position0\<rparr>;
          st1 = (if netQuantity position < bigZero
                 then log_error st
                        ''Invalid position: user {} has negative netQuantity on outcome {} on market {}''
                        [user position, BigInt_toString (outcomeIndex position), market position]
                 else st)
      in MarketPosition_save st1 position)"

text \<open>
  What every event carries (\<open>ethereum.Event\<close>): the emitting contract, the log index,
  \<open>block.timestamp\<close> and \<open>transaction.hash\<close>.
\<close>

record ethereum_Event =
  address :: Bytes
  logIndex :: BigInt
  block_timestamp :: BigInt
  transaction_hash :: Bytes

text \<open>\<open>PositionSplit\<close> and \<open>PositionsMerge\<close> have the same parameters.\<close>

record PositionSplit =
  event_base :: ethereum_Event
  stakeholder :: Bytes
  collateralToken :: Bytes
  parentCollectionId :: Bytes
  conditionId :: Bytes
  partition :: "BigInt list"
  amount :: BigInt

type_synonym PositionsMerge = PositionSplit

record PayoutRedemption =
  pr_event_base :: ethereum_Event
  redeemer :: Bytes
  pr_collateralToken :: Bytes
  pr_parentCollectionId :: Bytes
  pr_conditionId :: Bytes
  indexSets :: "BigInt list"
  payout :: BigInt

record ConditionResolution =
  cr_event_base :: ethereum_Event
  cr_conditionId :: Bytes
  cr_payoutNumerators :: "BigInt list"

definition updateMarketPositionFromTrade :: "store \<Rightarrow> ethereum_Event \<Rightarrow> result" where
  "updateMarketPositionFromTrade st event =
     (case transactions st (toHexString (transaction_hash event)) of
        None \<Rightarrow>
          Inl (Abort (Thrown ''Could not find transaction with hash'')
                 (log_error st ''Could not find a transaction with hash: {}''
                    [Bytes_toString (transaction_hash event)]))
      | Some transaction \<Rightarrow>
          (let position =
                 getMarketPosition st (tx_user transaction) (tx_market transaction)
                   (tx_outcomeIndex transaction);
               position' =
                 (if tx_type transaction = ''Buy''
                  then position\<lparr>quantityBought :=
                                   quantityBought position + outcomeTokensAmount transaction,
                                 valueBought := valueBought position + tradeAmount transaction\<rparr>
                  else position\<lparr>quantitySold :=
                                   quantitySold position + outcomeTokensAmount transaction,
                                 valueSold := valueSold position + tradeAmount transaction\<rparr>)
           in Inr (updateNetPositionAndSave st position')))"

text \<open>
  The loop of \<open>updateMarketPositionsFromSplit\<close>, from \<open>outcomeIdx\<close> on. The counter
  stays below \<open>totalSlots\<close>, an \<open>i32\<close>, so its increment never wraps.
\<close>

function split_loop :: "store \<Rightarrow> string \<Rightarrow> string \<Rightarrow> PositionSplit \<Rightarrow> int \<Rightarrow> int \<Rightarrow> result" where
  "split_loop st userAddress marketMakerAddress event totalSlots outcomeIdx =
     (if outcomeIdx < totalSlots then
        (let position = getMarketPosition st userAddress marketMakerAddress outcomeIdx;
             position1 = position\<lparr>quantityBought := quantityBought position + amount event\<rparr>
         in case BigInt_div (amount event) totalSlots of
              None \<Rightarrow> Inl (Abort DivisionByZero st)
            | Some mergeValue \<Rightarrow>
                split_loop
                  (updateNetPositionAndSave st
                     (position1\<lparr>valueBought := valueBought position1 + mergeValue\<rparr>))
                  userAddress marketMakerAddress event totalSlots (outcomeIdx + 1))
      else Inr st)"
  by pat_completeness auto
termination
  by (relation "measure (\<lambda>(st, u, m, e, totalSlots, outcomeIdx). nat (totalSlots - outcomeIdx))")
    auto

text \<open>
  \<open>FixedProductMarketMaker.load(...) as FixedProductMarketMaker\<close>: the cast of a missing
  entity stops the handler.
\<close>

definition updateMarketPositionsFromSplit :: "store \<Rightarrow> string \<Rightarrow> PositionSplit \<Rightarrow> result" where
  "updateMarketPositionsFromSplit st marketMakerAddress event =
     (let userAddress = toHexString (stakeholder event)
      in case marketMakers st marketMakerAddress of
           None \<Rightarrow> Inl (Abort NullReference st)
         | Some marketMaker \<Rightarrow>
             split_loop st userAddress marketMakerAddress event
               (fpmm_outcomeSlotCount marketMaker) 0)"

function merge_loop :: "store \<Rightarrow> string \<Rightarrow> string \<Rightarrow> PositionsMerge \<Rightarrow> int \<Rightarrow> int \<Rightarrow> result" where
  "merge_loop st userAddress marketMakerAddress event totalSlots outcomeIdx =
     (if outcomeIdx < totalSlots then
        (let position = getMarketPosition st userAddress marketMakerAddress outcomeIdx;
             position1 = position\<lparr>quantitySold := quantitySold position + amount event\<rparr>
         in case BigInt_div (amount event) totalSlots of
              None \<Rightarrow> Inl (Abort DivisionByZero st)
            | Some mergeValue \<Rightarrow>
                merge_loop
                  (updateNetPositionAndSave st
                     (position1\<lparr>valueSold := valueSold position1 + mergeValue\<rparr>))
                  userAddress marketMakerAddress event totalSlots (outcomeIdx + 1))
      else Inr st)"
  by pat_completeness auto
termination
  by (relation "measure (\<lambda>(st, u, m, e, totalSlots, outcomeIdx). nat (totalSlots - outcomeIdx))")
    auto

definition updateMarketPositionsFromMerge :: "store \<Rightarrow> string \<Rightarrow> PositionsMerge \<Rightarrow> result" where
  "updateMarketPositionsFromMerge st marketMakerAddress event =
     (let userAddress = toHexString (stakeholder event)
      in case marketMakers st marketMakerAddress of
           None \<Rightarrow> Inl (Abort NullReference st)
         | Some marketMaker \<Rightarrow>
             merge_loop st userAddress marketMakerAddress event
               (fpmm_outcomeSlotCount marketMaker) 0)"

text \<open>
  The inner loop of the redemption,
  \<^verbatim>\<open>while (1 << outcomeIndex < indexSets[i].toI32()) outcomeIndex += 1\<close>,
  on \<open>i32\<close> values: \<open>m\<close> is the index set as an \<open>i32\<close>. \<open>None\<close>: the loop never ends.
\<close>

partial_function (option) outcomeIndex_loop :: "int \<Rightarrow> int \<Rightarrow> int option" where
  "outcomeIndex_loop m outcomeIdx =
     (if shl_i32 1 outcomeIdx < m then outcomeIndex_loop m (i32 (outcomeIdx + 1))
      else Some outcomeIdx)"

definition decodeIndexSet :: "BigInt \<Rightarrow> unit failure + int" where
  "decodeIndexSet indexSet =
     (case toI32 indexSet of
        None \<Rightarrow> Inl (Abort I32Overflow ())
      | Some m \<Rightarrow>
          (case outcomeIndex_loop m 0 of None \<Rightarrow> Inl Diverges | Some outcomeIdx \<Rightarrow> Inr outcomeIdx))"

text \<open>
  The loop of \<open>updateMarketPositionsFromRedemption\<close> over the rest of \<open>indexSets\<close>. An
  array read out of range traps.
\<close>

fun redemption_loop ::
  "store \<Rightarrow> string \<Rightarrow> string \<Rightarrow> BigInt list \<Rightarrow> BigInt \<Rightarrow> BigInt list \<Rightarrow> result" where
  "redemption_loop st userAddress marketMakerAddress numerators denominator [] = Inr st"
| "redemption_loop st userAddress marketMakerAddress numerators denominator (indexSet # rest) =
     (case decodeIndexSet indexSet of
        Inl f \<Rightarrow> Inl (map_failure (\<lambda>_. st) f)
      | Inr outcomeIdx \<Rightarrow>
          (let position = getMarketPosition st userAddress marketMakerAddress outcomeIdx
           in if outcomeIdx < 0 \<or> int (length numerators) \<le> outcomeIdx
              then Inl (Abort IndexOutOfRange st)
              else
                (let numerator = numerators ! nat outcomeIdx
                 in case BigInt_div (netQuantity position * numerator) denominator of
                      None \<Rightarrow> Inl (Abort DivisionByZero st)
                    | Some redemptionValue \<Rightarrow>
                        redemption_loop
                          (updateNetPositionAndSave st
                             (position\<lparr>quantitySold := quantitySold position + netQuantity position,
                                       valueSold := valueSold position + redemptionValue\<rparr>))
                          userAddress marketMakerAddress numerators denominator rest)))"

definition Condition_load :: "store \<Rightarrow> string \<Rightarrow> Condition option" where
  "Condition_load st k = map_option (\<lambda>c. c\<lparr>condition_id := k\<rparr>) (conditions st k)"

definition Condition_save :: "store \<Rightarrow> Condition \<Rightarrow> store" where
  "Condition_save st c = st\<lparr>conditions := (conditions st)(condition_id c \<mapsto> c)\<rparr>"

definition updateMarketPositionsFromRedemption ::
  "store \<Rightarrow> string \<Rightarrow> PayoutRedemption \<Rightarrow> result" where
  "updateMarketPositionsFromRedemption st marketMakerAddress event =
     (let userAddress = toHexString (redeemer event)
      in case Condition_load st (toHexString (pr_conditionId event)) of
           None \<Rightarrow> Inl (Abort NullReference st)
         | Some condition \<Rightarrow>
             (case payoutNumerators condition of
                None \<Rightarrow>
                  Inr (log_error st
                         ''Failed to update market positions: condition {} has not resolved''
                         [condition_id condition])
              | Some numerators \<Rightarrow>
                  (case payoutDenominator condition of
                     None \<Rightarrow>
                       Inr (log_error st
                              ''Failed to update market positions: condition {} has not resolved''
                              [condition_id condition])
                   | Some denominator \<Rightarrow>
                       redemption_loop st userAddress marketMakerAddress numerators denominator
                         (indexSets event))))"

section \<open>The ConditionalTokens mapping\<close>

text \<open>
  The handlers of splits, merges, redemptions and resolutions. The handler of a
  condition's preparation and the NegRiskAdapter mapping write no position and read no
  payout; they are left out.

  What the mapping uses and the sources do not hold: the contract addresses filled in
  from the deployment configuration (lower-case hexadecimal strings), and the helpers
  \<open>getEventKey\<close>, \<open>partitionCheck\<close>, \<open>getCollateralDetails\<close>, \<open>requireAccount\<close> and
  \<open>markAccountAsSeen\<close>. They are parameters of the handlers; the helpers that return
  nothing are store transformers.
\<close>

record env =
  NegRiskAdapter_address :: string
  Exchange_address :: string
  NegativeRiskAdapter_address :: string
  getEventKey :: "ethereum_Event \<Rightarrow> string"
  partitionCheck :: "BigInt list \<Rightarrow> int \<Rightarrow> bool"
  getCollateralDetails :: "Bytes \<Rightarrow> store \<Rightarrow> store"
  requireAccount :: "string \<Rightarrow> BigInt \<Rightarrow> store \<Rightarrow> store"
  markAccountAsSeen :: "string \<Rightarrow> BigInt \<Rightarrow> store \<Rightarrow> store"

text \<open>The loops of the handlers over \<open>condition.fixedProductMarketMakers\<close>.\<close>

fun split_marketMakers :: "store \<Rightarrow> string list \<Rightarrow> PositionSplit \<Rightarrow> result" where
  "split_marketMakers st [] event = Inr st"
| "split_marketMakers st (marketMaker # rest) event =
     (case updateMarketPositionsFromSplit st marketMaker event of
        Inl f \<Rightarrow> Inl f
      | Inr st' \<Rightarrow> split_marketMakers st' rest event)"

fun merge_marketMakers :: "store \<Rightarrow> string list \<Rightarrow> PositionsMerge \<Rightarrow> result" where
  "merge_marketMakers st [] event = Inr st"
| "merge_marketMakers st (marketMaker # rest) event =
     (case updateMarketPositionsFromMerge st marketMaker event of
        Inl f \<Rightarrow> Inl f
      | Inr st' \<Rightarrow> merge_marketMakers st' rest event)"

fun redemption_marketMakers :: "store \<Rightarrow> string list \<Rightarrow> PayoutRedemption \<Rightarrow> result" where
  "redemption_marketMakers st [] event = Inr st"
| "redemption_marketMakers st (marketMaker # rest) event =
     (case updateMarketPositionsFromRedemption st marketMaker event of
        Inl f \<Rightarrow> Inl f
      | Inr st' \<Rightarrow> redemption_marketMakers st' rest event)"

definition handlePositionSplit :: "env \<Rightarrow> store \<Rightarrow> PositionSplit \<Rightarrow> result" where
  "handlePositionSplit env st event =
     (if marketMakers st (toHexString (stakeholder event)) \<noteq> None then Inr st
      else if toHexString (stakeholder event)
                \<in> set [NegRiskAdapter_address env, Exchange_address env] then Inr st
      else
        (let st1 = getCollateralDetails env (collateralToken event) st;
             st2 = requireAccount env (toHexString (stakeholder event))
                     (block_timestamp (event_base event)) st1;
             st3 = markAccountAsSeen env (toHexString (stakeholder event))
                     (block_timestamp (event_base event)) st2;
             split = \<lparr>row_timestamp = block_timestamp (event_base event),
                      row_stakeholder = toHexString (stakeholder event),
                      row_collateralToken = toHexString (collateralToken event),
                      row_parentCollectionId = parentCollectionId event,
                      row_condition = toHexString (conditionId event),
                      row_partition = partition event,
                      row_amount = amount event\<rparr>;
             st4 = st3\<lparr>splits := (splits st3)(getEventKey env (event_base event) \<mapsto> split)\<rparr>
         in case Condition_load st4 (row_condition split) of
              None \<Rightarrow>
                Inr (log_error st4
                       ''Failed to update market positions: condition {} not prepared''
                       [row_condition split])
            | Some condition \<Rightarrow>
                (if partitionCheck env (row_partition split) (outcomeSlotCount condition)
                 then split_marketMakers st4 (fixedProductMarketMakers condition) event
                 else Inr st4)))"

definition handlePositionsMerge :: "env \<Rightarrow> store \<Rightarrow> PositionsMerge \<Rightarrow> result" where
  "handlePositionsMerge env st event =
     (if marketMakers st (toHexString (stakeholder event)) \<noteq> None then Inr st
      else if toHexString (stakeholder event)
                \<in> set [NegRiskAdapter_address env, Exchange_address env] then Inr st
      else
        (let st2 = requireAccount env (toHexString (stakeholder event))
                     (block_timestamp (event_base event)) st;
             st3 = markAccountAsSeen env (toHexString (stakeholder event))
                     (block_timestamp (event_base event)) st2;
             merge = \<lparr>row_timestamp = block_timestamp (event_base event),
                      row_stakeholder = toHexString (stakeholder event),
                      row_collateralToken = toHexString (collateralToken event),
                      row_parentCollectionId = parentCollectionId event,
                      row_condition = toHexString (conditionId event),
                      row_partition = partition event,
                      row_amount = amount event\<rparr>;
             st4 = st3\<lparr>merges := (merges st3)(getEventKey env (event_base event) \<mapsto> merge)\<rparr>
         in case Condition_load st4 (row_condition merge) of
              None \<Rightarrow>
                Inr (log_error st4
                       ''Failed to update market positions: condition {} not prepared''
                       [row_condition merge])
            | Some condition \<Rightarrow>
                (if partitionCheck env (row_partition merge) (outcomeSlotCount condition)
                 then merge_marketMakers st4 (fixedProductMarketMakers condition) event
                 else Inr st4)))"

definition handlePayoutRedemption :: "env \<Rightarrow> store \<Rightarrow> PayoutRedemption \<Rightarrow> result" where
  "handlePayoutRedemption env st event =
     (if toHexString (redeemer event) = NegativeRiskAdapter_address env then Inr st
      else
        (let st2 = requireAccount env (toHexString (redeemer event))
                     (block_timestamp (pr_event_base event)) st;
             st3 = markAccountAsSeen env (toHexString (redeemer event))
                     (block_timestamp (pr_event_base event)) st2;
             redemption = \<lparr>red_timestamp = block_timestamp (pr_event_base event),
                           red_redeemer = toHexString (redeemer event),
                           red_collateralToken = toHexString (pr_collateralToken event),
                           red_parentCollectionId = pr_parentCollectionId event,
                           red_condition = toHexString (pr_conditionId event),
                           red_indexSets = indexSets event,
                           red_payout = payout event\<rparr>;
             st4 = st3\<lparr>redemptions :=
                         (redemptions st3)(getEventKey env (pr_event_base event) \<mapsto> redemption)\<rparr>
         in case Condition_load st4 (red_condition redemption) of
              None \<Rightarrow>
                Inr (log_error st4
                       ''Failed to update market positions: condition {} not prepared''
                       [red_condition redemption])
            | Some condition \<Rightarrow>
                redemption_marketMakers st4 (fixedProductMarketMakers condition) event))"

text \<open>\<open>requireGlobal\<close> (utils/global-utils): the one \<open>Global\<close> entity, with id \<open>''\<close>.\<close>

definition requireGlobal :: "store \<Rightarrow> Global" where
  "requireGlobal st =
     (case globals st [] of
        None \<Rightarrow>
          \<lparr>numConditions = 0, numOpenConditions = 0, numClosedConditions = 0,
           numTraders = bigZero, tradesQuantity = bigZero, buysQuantity = bigZero,
           sellsQuantity = bigZero, collateralVolume = bigZero,
           scaledCollateralVolume = toBigDecimal bigZero, collateralFees = bigZero,
           scaledCollateralFees = toBigDecimal bigZero, collateralBuyVolume = bigZero,
           scaledCollateralBuyVolume = toBigDecimal bigZero, collateralSellVolume = bigZero,
           scaledCollateralSellVolume = toBigDecimal bigZero, openInterest = bigZero,
           scaledOpenInterest = toBigDecimal bigZero\<rparr>
      | Some global \<Rightarrow> global)"

definition Global_save :: "store \<Rightarrow> Global \<Rightarrow> store" where
  "Global_save st global = st\<lparr>globals := (globals st)([] \<mapsto> global)\<rparr>"

text \<open>The two loops of \<open>handleConditionResolution\<close>: the sum and the quotients.\<close>

fun payoutDenominator_loop :: "BigInt \<Rightarrow> BigInt list \<Rightarrow> BigInt" where
  "payoutDenominator_loop denominator [] = denominator"
| "payoutDenominator_loop denominator (numerator # rest) =
     payoutDenominator_loop (denominator + numerator) rest"

fun payouts_loop :: "BigInt list \<Rightarrow> BigDecimal \<Rightarrow> BigDecimal list option" where
  "payouts_loop [] payoutDenominatorDec = Some []"
| "payouts_loop (numerator # rest) payoutDenominatorDec =
     (case divDecimal numerator payoutDenominatorDec of
        None \<Rightarrow> None
      | Some q \<Rightarrow> map_option ((#) q) (payouts_loop rest payoutDenominatorDec))"

definition handleConditionResolution :: "store \<Rightarrow> ConditionResolution \<Rightarrow> result" where
  "handleConditionResolution st event =
     (let conditionId' = toHexString (cr_conditionId event)
      in case Condition_load st conditionId' of
           None \<Rightarrow> Inr (log_error st ''could not find condition {} to resolve'' [conditionId'])
         | Some condition \<Rightarrow>
             (let global = requireGlobal st;
                  st1 = Global_save st
                          (global\<lparr>numOpenConditions := i32 (numOpenConditions global - 1),
                                  numClosedConditions := i32 (numClosedConditions global + 1)\<rparr>);
                  numerators = cr_payoutNumerators event;
                  denominator = payoutDenominator_loop bigZero numerators;
                  payoutDenominatorDec = toBigDecimal denominator
              in case payouts_loop numerators payoutDenominatorDec of
                   None \<Rightarrow> Inl (Abort DivisionByZero st1)
                 | Some payouts' \<Rightarrow>
                     Inr (Condition_save st1
                            (condition\<lparr>resolutionTimestamp :=
                                          Some (block_timestamp (cr_event_base event)),
                                        payouts := Some payouts',
                                        payoutNumerators := Some numerators,
                                        payoutDenominator := Some denominator,
                                        resolutionHash :=
                                          Some (transaction_hash (cr_event_base event))\<rparr>))))"

section \<open>Reading the ledger\<close>

text \<open>
  A position is settled when its two derived fields are the differences of its
  cumulative ones, as \<open>updateNetPositionAndSave\<close> leaves it; every position the
  mappings write is saved by that function.
\<close>

definition settled :: "MarketPosition \<Rightarrow> bool" where
  "settled p \<longleftrightarrow>
     netQuantity p = quantityBought p - quantitySold p \<and>
     netValue p = valueBought p - valueSold p"

definition ledger_settled :: "store \<Rightarrow> bool" where
  "ledger_settled st \<longleftrightarrow> (\<forall>k p. marketPositions st k = Some p \<longrightarrow> settled p)"

text \<open>The cumulative fields stored under a key, zero where the store has no position.\<close>

definition bought :: "store \<Rightarrow> string \<Rightarrow> BigInt" where
  "bought st k = (case marketPositions st k of None \<Rightarrow> 0 | Some p \<Rightarrow> quantityBought p)"

definition sold :: "store \<Rightarrow> string \<Rightarrow> BigInt" where
  "sold st k = (case marketPositions st k of None \<Rightarrow> 0 | Some p \<Rightarrow> quantitySold p)"

definition boughtValue :: "store \<Rightarrow> string \<Rightarrow> BigInt" where
  "boughtValue st k = (case marketPositions st k of None \<Rightarrow> 0 | Some p \<Rightarrow> valueBought p)"

definition soldValue :: "store \<Rightarrow> string \<Rightarrow> BigInt" where
  "soldValue st k = (case marketPositions st k of None \<Rightarrow> 0 | Some p \<Rightarrow> valueSold p)"

text \<open>A position that is stored, with as much sold as bought and net quantity 0.\<close>

definition zeroed :: "store \<Rightarrow> string \<Rightarrow> bool" where
  "zeroed st k \<longleftrightarrow>
     (\<exists>p. marketPositions st k = Some p \<and> netQuantity p = 0 \<and> quantitySold p = quantityBought p)"

text \<open>
  How many outcome indices from \<open>lo\<close> up to \<open>hi - 1\<close> have the key \<open>k\<close> for the user and
  market: how often a loop over these indices writes the position stored under \<open>k\<close>.
\<close>

definition hits :: "string \<Rightarrow> string \<Rightarrow> string \<Rightarrow> int \<Rightarrow> int \<Rightarrow> int" where
  "hits usr mkt k lo hi = int (length (filter (\<lambda>i. positionId usr mkt i = k) [lo..hi - 1]))"

text \<open>
  How often a split over the market makers \<open>mms\<close> writes the position stored under \<open>k\<close>,
  and by how much \<open>handlePositionSplit\<close> raises the quantity bought stored under \<open>k\<close>.
  Both read the market makers and the conditions only.
\<close>

definition slotCount :: "(string \<rightharpoonup> FixedProductMarketMaker) \<Rightarrow> string \<Rightarrow> int" where
  "slotCount table m = (case table m of None \<Rightarrow> 0 | Some maker \<Rightarrow> fpmm_outcomeSlotCount maker)"

definition split_writes ::
  "(string \<rightharpoonup> FixedProductMarketMaker) \<Rightarrow> string \<Rightarrow> string list \<Rightarrow> string \<Rightarrow> int" where
  "split_writes table usr mms k = sum_list (map (\<lambda>m. hits usr m k 0 (slotCount table m)) mms)"

definition split_increase :: "env \<Rightarrow> store \<Rightarrow> PositionSplit \<Rightarrow> string \<Rightarrow> BigInt" where
  "split_increase env st event k =
     (if marketMakers st (toHexString (stakeholder event)) \<noteq> None
         \<or> toHexString (stakeholder event)
               \<in> set [NegRiskAdapter_address env, Exchange_address env]
      then 0
      else
        (case conditions st (toHexString (conditionId event)) of
           None \<Rightarrow> 0
         | Some condition \<Rightarrow>
             if partitionCheck env (partition event) (outcomeSlotCount condition)
             then split_writes (marketMakers st) (toHexString (stakeholder event))
                    (fixedProductMarketMakers condition) k * amount event
             else 0))"

text \<open>The truncated quotient that \<open>BigInt_div\<close> returns for a divisor other than zero.\<close>

definition quotient :: "BigInt \<Rightarrow> BigInt \<Rightarrow> BigInt" where
  "quotient a b = sgn a * sgn b * (\<bar>a\<bar> div \<bar>b\<bar>)"

text \<open>
  The tables the handlers read to decide what to update. A helper keeps the ledger
  when it leaves them and the positions as they are.
\<close>

definition same_ledger :: "store \<Rightarrow> store \<Rightarrow> bool" where
  "same_ledger st st' \<longleftrightarrow>
     marketPositions st' = marketPositions st \<and> marketMakers st' = marketMakers st \<and>
     conditions st' = conditions st"

definition helpers_keep_ledger :: "env \<Rightarrow> bool" where
  "helpers_keep_ledger env \<longleftrightarrow>
     (\<forall>token st. same_ledger st (getCollateralDetails env token st)) \<and>
     (\<forall>account timestamp st. same_ledger st (requireAccount env account timestamp st)) \<and>
     (\<forall>account timestamp st. same_ledger st (markAccountAsSeen env account timestamp st))"

section \<open>The helpers outside the sources\<close>

text \<open>
  Modelled from the spec: \<open>getEventKey\<close> (utils/getEventKey is not among the sources).
  The specification keys an audit row by "transaction hash + log index".
\<close>

definition getEventKey_spec :: "ethereum_Event \<Rightarrow> string" where
  "getEventKey_spec event =
     toHexString (transaction_hash event) @ BigInt_toString (logIndex event)"

text \<open>
  Modelled from the spec: \<open>partitionCheck\<close> (utils/conditional-utils is not among the
  sources). The specification's \<open>isFullPartition\<close>: every outcome slot from 0 to
  \<open>outcomeSlotCount - 1\<close> is covered by exactly one mask.
\<close>

definition isFullPartition :: "BigInt list \<Rightarrow> int \<Rightarrow> bool" where
  "isFullPartition masks slots =
     list_all (\<lambda>i. length (filter (\<lambda>mask. bit mask i) masks) = 1) [0..<nat slots]"

text \<open>
  Modelled from the spec: \<open>requireAccount\<close> and \<open>markAccountAsSeen\<close> (utils/account-utils
  is not among the sources). The specification's "ensure account exists / mark seen"
  upsert, keyed by the account and a timestamp.
\<close>

definition requireAccount_spec :: "string \<Rightarrow> BigInt \<Rightarrow> store \<Rightarrow> store" where
  "requireAccount_spec account timestamp st =
     (case accounts st account of
        None \<Rightarrow>
          st\<lparr>accounts := (accounts st)(account \<mapsto>
                \<lparr>creationTimestamp = timestamp, lastSeenTimestamp = timestamp\<rparr>)\<rparr>
      | Some _ \<Rightarrow> st)"

definition markAccountAsSeen_spec :: "string \<Rightarrow> BigInt \<Rightarrow> store \<Rightarrow> store" where
  "markAccountAsSeen_spec account timestamp st =
     (case accounts st account of
        None \<Rightarrow>
          st\<lparr>accounts := (accounts st)(account \<mapsto>
                \<lparr>creationTimestamp = timestamp, lastSeenTimestamp = timestamp\<rparr>)\<rparr>
      | Some a \<Rightarrow> st\<lparr>accounts := (accounts st)(account \<mapsto> a\<lparr>lastSeenTimestamp := timestamp\<rparr>)\<rparr>)"

text \<open>
  Modelled from the spec: \<open>getCollateralDetails\<close> (utils/collateralTokens is not among
  the sources). The specification leaves token configuration to a collaborator and
  names no effect of it on the ledger; the handler drops what the helper returns.
\<close>

definition getCollateralDetails_spec :: "Bytes \<Rightarrow> store \<Rightarrow> store" where
  "getCollateralDetails_spec token st = st"

section \<open>A small deployment\<close>

text \<open>
  One market maker \<open>0x4d\<close> with two outcome slots on one condition \<open>0xc1\<close>, the user
  \<open>0x0a\<close>, and the three configured contracts.
\<close>

definition example_env :: env where
  "example_env =
     \<lparr>NegRiskAdapter_address = ''0xa1'', Exchange_address = ''0xe1'',
      NegativeRiskAdapter_address = ''0xa2'', getEventKey = getEventKey_spec,
      partitionCheck = isFullPartition, getCollateralDetails = getCollateralDetails_spec,
      requireAccount = requireAccount_spec, markAccountAsSeen = markAccountAsSeen_spec\<rparr>"

definition empty_store :: store where
  "empty_store =
     \<lparr>marketPositions = Map.empty, transactions = Map.empty, marketMakers = Map.empty,
      conditions = Map.empty, splits = Map.empty, merges = Map.empty,
      redemptions = Map.empty, globals = Map.empty, accounts = Map.empty, logs = []\<rparr>"

definition example_condition :: Condition where
  "example_condition =
     \<lparr>condition_id = ''0xc1'', cond_oracle = [], questionId = [],
      fixedProductMarketMakers = [''0x4d''], outcomeSlotCount = 2,
      resolutionTimestamp = None, payouts = None, payoutNumerators = None,
      payoutDenominator = None, resolutionHash = None\<rparr>"

definition example_store :: store where
  "example_store =
     empty_store
       \<lparr>marketMakers :=
          [''0x4d'' \<mapsto> \<lparr>fpmm_outcomeSlotCount = 2, outcomeTokenPrices = [1 / 2, 1 / 2]\<rparr>],
        conditions := [''0xc1'' \<mapsto> example_condition]\<rparr>"

definition example_event :: ethereum_Event where
  "example_event =
     \<lparr>address = [0xC7], logIndex = 7, block_timestamp = 1000, transaction_hash = [0x7F]\<rparr>"

definition example_split :: PositionSplit where
  "example_split =
     \<lparr>event_base = example_event, stakeholder = [0x0A], collateralToken = [0x05],
      parentCollectionId = [], conditionId = [0xC1], partition = [1, 2], amount = 10\<rparr>"

definition example_resolution :: ConditionResolution where
  "example_resolution =
     \<lparr>cr_event_base = example_event, cr_conditionId = [0xC1], cr_payoutNumerators = [3, 1]\<rparr>"

definition example_redemption :: PayoutRedemption where
  "example_redemption =
     \<lparr>pr_event_base = example_event, redeemer = [0x0A], pr_collateralToken = [0x05],
      pr_parentCollectionId = [], pr_conditionId = [0xC1], indexSets = [1], payout = 999\<rparr>"

text \<open>The user holds 100 tokens of outcome 0, bought for 60.\<close>

definition example_position :: MarketPosition where
  "example_position =
     \<lparr>mp_id = ''0x0a0x4d0'', market = ''0x4d'', user = ''0x0a'', outcomeIndex = 0,
      quantityBought = 100, quantitySold = 0, netQuantity = 100,
      valueBought = 60, valueSold = 0, netValue = 60\<rparr>"

definition example_holding_store :: store where
  "example_holding_store =
     example_store\<lparr>marketPositions := [''0x0a0x4d0'' \<mapsto> example_position]\<rparr>"

text \<open>The same after the condition has resolved with the numerators 3 and 1.\<close>

definition example_resolved_condition :: Condition where
  "example_resolved_condition =
     example_condition
       \<lparr>resolutionTimestamp := Some 1000, payouts := Some [3 / 4, 1 / 4],
        payoutNumerators := Some [3, 1], payoutDenominator := Some 4,
        resolutionHash := Some [0x7F]\<rparr>"

definition example_resolved_store :: store where
  "example_resolved_store =
     example_holding_store\<lparr>conditions := [''0xc1'' \<mapsto> example_resolved_condition]\<rparr>"

section \<open>The ledger after one write\<close>

text \<open>
  What \<open>getMarketPosition\<close> reads and what \<open>updateNetPositionAndSave\<close> and \<open>log.error\<close>
  leave in the store. The recursive equations of the loops are unfolded by hand, one
  iteration at a time.
\<close>

declare split_loop.simps [simp del] merge_loop.simps [simp del] nat_toString.simps [simp del]

lemma BigInt_div_quotient: "b \<noteq> 0 \<Longrightarrow> BigInt_div a b = Some (quotient a b)"
  by (simp add: BigInt_div_def quotient_def)

lemma getMarketPosition_id: "mp_id (getMarketPosition st u m i) = positionId u m i"
  by (simp add: getMarketPosition_def MarketPosition_load_def split: option.splits)

lemma getMarketPosition_fields:
  "quantityBought (getMarketPosition st u m i) = bought st (positionId u m i)"
  "quantitySold (getMarketPosition st u m i) = sold st (positionId u m i)"
  "valueBought (getMarketPosition st u m i) = boughtValue st (positionId u m i)"
  "valueSold (getMarketPosition st u m i) = soldValue st (positionId u m i)"
  by (simp_all add: getMarketPosition_def MarketPosition_load_def bought_def sold_def
      boughtValue_def soldValue_def bigZero_def split: option.splits)

lemma save_positions:
  "marketPositions (updateNetPositionAndSave st p) =
     (marketPositions st)(mp_id p \<mapsto>
        p\<lparr>netQuantity := quantityBought p - quantitySold p,
          netValue := valueBought p - valueSold p\<rparr>)"
  by (simp add: updateNetPositionAndSave_def Let_def MarketPosition_save_def log_error_def)

lemma save_frame:
  "marketMakers (updateNetPositionAndSave st p) = marketMakers st"
  "conditions (updateNetPositionAndSave st p) = conditions st"
  "transactions (updateNetPositionAndSave st p) = transactions st"
  "splits (updateNetPositionAndSave st p) = splits st"
  "merges (updateNetPositionAndSave st p) = merges st"
  "redemptions (updateNetPositionAndSave st p) = redemptions st"
  "globals (updateNetPositionAndSave st p) = globals st"
  "accounts (updateNetPositionAndSave st p) = accounts st"
  by (simp_all add: updateNetPositionAndSave_def Let_def MarketPosition_save_def log_error_def)

lemma save_settled: "ledger_settled st \<Longrightarrow> ledger_settled (updateNetPositionAndSave st p)"
  by (auto simp: ledger_settled_def save_positions settled_def)

lemma save_totals:
  "bought (updateNetPositionAndSave st p) k = (if k = mp_id p then quantityBought p else bought st k)"
  "sold (updateNetPositionAndSave st p) k = (if k = mp_id p then quantitySold p else sold st k)"
  "boughtValue (updateNetPositionAndSave st p) k = (if k = mp_id p then valueBought p else boughtValue st k)"
  "soldValue (updateNetPositionAndSave st p) k = (if k = mp_id p then valueSold p else soldValue st k)"
  by (simp_all add: bought_def sold_def boughtValue_def soldValue_def save_positions)

lemma log_error_frame:
  "marketPositions (log_error st f a) = marketPositions st"
  "conditions (log_error st f a) = conditions st"
  "marketMakers (log_error st f a) = marketMakers st"
  "globals (log_error st f a) = globals st"
  "splits (log_error st f a) = splits st"
  "merges (log_error st f a) = merges st"
  "redemptions (log_error st f a) = redemptions st"
  "accounts (log_error st f a) = accounts st"
  "transactions (log_error st f a) = transactions st"
  "logs (log_error st f a) = logs st @ [LogError f a]"
  by (simp_all add: log_error_def)

lemma getMarketPosition_settled: "ledger_settled st \<Longrightarrow> settled (getMarketPosition st u m i)"
  by (auto simp: ledger_settled_def getMarketPosition_def MarketPosition_load_def settled_def
      bigZero_def split: option.splits)

lemma getMarketPosition_zeroed:
  "zeroed st (positionId u m i) \<Longrightarrow>
     netQuantity (getMarketPosition st u m i) = 0 \<and>
     quantitySold (getMarketPosition st u m i) = quantityBought (getMarketPosition st u m i)"
  by (auto simp: zeroed_def getMarketPosition_def MarketPosition_load_def)

section \<open>The split and merge loops\<close>

text \<open>
  A loop over the outcome indices adds the amount and the quotient to the position
  under a key once for every index that has this key.
\<close>

lemma hits_step: "lo < hi \<Longrightarrow>
  hits u m k lo hi = (if positionId u m lo = k then 1 else 0) + hits u m k (lo + 1) hi"
  by (simp add: hits_def upto_rec1 [of lo "hi - 1"])

lemma hits_done: "\<not> lo < hi \<Longrightarrow> hits u m k lo hi = 0"
  by (simp add: hits_def)

lemma hits_nonneg: "0 \<le> hits u m k lo hi"
  by (simp add: hits_def)

lemma hits_member: "lo \<le> i \<Longrightarrow> i < hi \<Longrightarrow> 0 < hits u m (positionId u m i) lo hi"
proof -
  assume "lo \<le> i" "i < hi"
  then have "i \<in> set (filter (\<lambda>j. positionId u m j = positionId u m i) [lo..hi - 1])" by simp
  then have "filter (\<lambda>j. positionId u m j = positionId u m i) [lo..hi - 1] \<noteq> []"
    by (metis empty_iff list.set(1))
  then show ?thesis by (simp add: hits_def)
qed

lemma split_loop_effect:
  "0 \<le> lo \<Longrightarrow>
   \<exists>st'. split_loop st u m ev N lo = Inr st' \<and>
     bought st' k = bought st k + hits u m k lo N * amount ev \<and>
     sold st' k = sold st k \<and>
     boughtValue st' k = boughtValue st k + hits u m k lo N * quotient (amount ev) N \<and>
     soldValue st' k = soldValue st k \<and>
     marketMakers st' = marketMakers st \<and> conditions st' = conditions st \<and>
     (ledger_settled st \<longrightarrow> ledger_settled st') \<and>
     (0 < hits u m k lo N \<or> (\<exists>p. marketPositions st k = Some p \<and> settled p)
        \<longrightarrow> (\<exists>p. marketPositions st' k = Some p \<and> settled p)) \<and>
     (hits u m k lo N = 0 \<longrightarrow> marketPositions st' k = marketPositions st k)"
proof (induction st u m ev N lo rule: split_loop.induct)
  case (1 st u m ev N lo)
  show ?case
  proof (cases "lo < N")
    case True
    with "1.prems" have "N \<noteq> 0" by simp
    then have q: "BigInt_div (amount ev) N = Some (quotient (amount ev) N)"
      by (rule BigInt_div_quotient)
    define p where "p = getMarketPosition st u m lo"
    define p1 where "p1 = p\<lparr>quantityBought := quantityBought p + amount ev\<rparr>"
    define p2 where "p2 = p1\<lparr>valueBought := valueBought p1 + quotient (amount ev) N\<rparr>"
    define st1 where "st1 = updateNetPositionAndSave st p2"
    have id2: "mp_id p2 = positionId u m lo"
      by (simp add: p2_def p1_def p_def getMarketPosition_id)
    from "1.IH" [OF True p_def [symmetric, THEN sym] p1_def [symmetric, THEN sym] q] "1.prems"
    obtain st' where st': "split_loop st1 u m ev N (lo + 1) = Inr st'"
      "bought st' k = bought st1 k + hits u m k (lo + 1) N * amount ev"
      "sold st' k = sold st1 k"
      "boughtValue st' k = boughtValue st1 k + hits u m k (lo + 1) N * quotient (amount ev) N"
      "soldValue st' k = soldValue st1 k"
      "marketMakers st' = marketMakers st1" "conditions st' = conditions st1"
      "ledger_settled st1 \<longrightarrow> ledger_settled st'"
      "0 < hits u m k (lo + 1) N \<or> (\<exists>p. marketPositions st1 k = Some p \<and> settled p)
         \<longrightarrow> (\<exists>p. marketPositions st' k = Some p \<and> settled p)"
      "hits u m k (lo + 1) N = 0 \<longrightarrow> marketPositions st' k = marketPositions st1 k"
      unfolding st1_def p2_def by auto
    have run: "split_loop st u m ev N lo = Inr st'"
      using True q st'(1)
      by (subst split_loop.simps) (simp add: Let_def st1_def p2_def p1_def p_def)
    have h: "hits u m k lo N = (if positionId u m lo = k then 1 else 0) + hits u m k (lo + 1) N"
      using True by (rule hits_step)
    have t1: "bought st1 k = bought st k + (if positionId u m lo = k then amount ev else 0)"
      by (simp add: st1_def save_totals id2) (auto simp: p2_def p1_def p_def getMarketPosition_fields)
    have t2: "sold st1 k = sold st k"
      by (simp add: st1_def save_totals id2) (auto simp: p2_def p1_def p_def getMarketPosition_fields)
    have t3: "boughtValue st1 k =
        boughtValue st k + (if positionId u m lo = k then quotient (amount ev) N else 0)"
      by (simp add: st1_def save_totals id2) (auto simp: p2_def p1_def p_def getMarketPosition_fields)
    have t4: "soldValue st1 k = soldValue st k"
      by (simp add: st1_def save_totals id2) (auto simp: p2_def p1_def p_def getMarketPosition_fields)
    have s1: "ledger_settled st \<longrightarrow> ledger_settled st1"
      by (simp add: st1_def save_settled)
    have pos1: "marketPositions st1 k =
        (if k = positionId u m lo
         then Some (p2\<lparr>netQuantity := quantityBought p2 - quantitySold p2,
                       netValue := valueBought p2 - valueSold p2\<rparr>)
         else marketPositions st k)"
      by (simp add: st1_def save_positions id2)
    have e1: "positionId u m lo = k \<or> (\<exists>p. marketPositions st k = Some p \<and> settled p)
        \<longrightarrow> (\<exists>p. marketPositions st1 k = Some p \<and> settled p)"
      by (auto simp: pos1 settled_def)
    have "bought st' k = bought st k + hits u m k lo N * amount ev"
      using st'(2) t1 h by (simp add: algebra_simps)
    moreover have "boughtValue st' k = boughtValue st k + hits u m k lo N * quotient (amount ev) N"
      using st'(4) t3 h by (simp add: algebra_simps)
    moreover have "(0 < hits u m k lo N \<or> (\<exists>p. marketPositions st k = Some p \<and> settled p)
        \<longrightarrow> (\<exists>p. marketPositions st' k = Some p \<and> settled p))"
      using st'(9) e1 h hits_nonneg [of u m k "lo + 1" N] by (auto split: if_splits)
    moreover have "hits u m k lo N = 0 \<longrightarrow> marketPositions st' k = marketPositions st k"
      using st'(10) pos1 h hits_nonneg [of u m k "lo + 1" N] by (auto split: if_splits)
    ultimately show ?thesis
      using run st'(3,5,6,7,8) t2 t4 s1 by (simp add: st1_def save_frame)
  next
    case False
    then have "split_loop st u m ev N lo = Inr st" by (subst split_loop.simps) simp
    with False show ?thesis by (simp add: hits_done)
  qed
qed

lemma merge_loop_effect:
  "0 \<le> lo \<Longrightarrow>
   \<exists>st'. merge_loop st u m ev N lo = Inr st' \<and>
     sold st' k = sold st k + hits u m k lo N * amount ev \<and>
     bought st' k = bought st k \<and>
     soldValue st' k = soldValue st k + hits u m k lo N * quotient (amount ev) N \<and>
     boughtValue st' k = boughtValue st k \<and>
     marketMakers st' = marketMakers st \<and> conditions st' = conditions st \<and>
     (ledger_settled st \<longrightarrow> ledger_settled st') \<and>
     (0 < hits u m k lo N \<or> (\<exists>p. marketPositions st k = Some p \<and> settled p)
        \<longrightarrow> (\<exists>p. marketPositions st' k = Some p \<and> settled p)) \<and>
     (hits u m k lo N = 0 \<longrightarrow> marketPositions st' k = marketPositions st k)"
proof (induction st u m ev N lo rule: merge_loop.induct)
  case (1 st u m ev N lo)
  show ?case
  proof (cases "lo < N")
    case True
    with "1.prems" have "N \<noteq> 0" by simp
    then have q: "BigInt_div (amount ev) N = Some (quotient (amount ev) N)"
      by (rule BigInt_div_quotient)
    define p where "p = getMarketPosition st u m lo"
    define p1 where "p1 = p\<lparr>quantitySold := quantitySold p + amount ev\<rparr>"
    define p2 where "p2 = p1\<lparr>valueSold := valueSold p1 + quotient (amount ev) N\<rparr>"
    define st1 where "st1 = updateNetPositionAndSave st p2"
    have id2: "mp_id p2 = positionId u m lo"
      by (simp add: p2_def p1_def p_def getMarketPosition_id)
    from "1.IH" [OF True p_def [symmetric, THEN sym] p1_def [symmetric, THEN sym] q] "1.prems"
    obtain st' where st': "merge_loop st1 u m ev N (lo + 1) = Inr st'"
      "sold st' k = sold st1 k + hits u m k (lo + 1) N * amount ev"
      "bought st' k = bought st1 k"
      "soldValue st' k = soldValue st1 k + hits u m k (lo + 1) N * quotient (amount ev) N"
      "boughtValue st' k = boughtValue st1 k"
      "marketMakers st' = marketMakers st1" "conditions st' = conditions st1"
      "ledger_settled st1 \<longrightarrow> ledger_settled st'"
      "0 < hits u m k (lo + 1) N \<or> (\<exists>p. marketPositions st1 k = Some p \<and> settled p)
         \<longrightarrow> (\<exists>p. marketPositions st' k = Some p \<and> settled p)"
      "hits u m k (lo + 1) N = 0 \<longrightarrow> marketPositions st' k = marketPositions st1 k"
      unfolding st1_def p2_def by auto
    have run: "merge_loop st u m ev N lo = Inr st'"
      using True q st'(1)
      by (subst merge_loop.simps) (simp add: Let_def st1_def p2_def p1_def p_def)
    have h: "hits u m k lo N = (if positionId u m lo = k then 1 else 0) + hits u m k (lo + 1) N"
      using True by (rule hits_step)
    have t1: "sold st1 k = sold st k + (if positionId u m lo = k then amount ev else 0)"
      by (simp add: st1_def save_totals id2) (auto simp: p2_def p1_def p_def getMarketPosition_fields)
    have t2: "bought st1 k = bought st k"
      by (simp add: st1_def save_totals id2) (auto simp: p2_def p1_def p_def getMarketPosition_fields)
    have t3: "soldValue st1 k =
        soldValue st k + (if positionId u m lo = k then quotient (amount ev) N else 0)"
      by (simp add: st1_def save_totals id2) (auto simp: p2_def p1_def p_def getMarketPosition_fields)
    have t4: "boughtValue st1 k = boughtValue st k"
      by (simp add: st1_def save_totals id2) (auto simp: p2_def p1_def p_def getMarketPosition_fields)
    have s1: "ledger_settled st \<longrightarrow> ledger_settled st1"
      by (simp add: st1_def save_settled)
    have pos1: "marketPositions st1 k =
        (if k = positionId u m lo
         then Some (p2\<lparr>netQuantity := quantityBought p2 - quantitySold p2,
                       netValue := valueBought p2 - valueSold p2\<rparr>)
         else marketPositions st k)"
      by (simp add: st1_def save_positions id2)
    have e1: "positionId u m lo = k \<or> (\<exists>p. marketPositions st k = Some p \<and> settled p)
        \<longrightarrow> (\<exists>p. marketPositions st1 k = Some p \<and> settled p)"
      by (auto simp: pos1 settled_def)
    have "sold st' k = sold st k + hits u m k lo N * amount ev"
      using st'(2) t1 h by (simp add: algebra_simps)
    moreover have "soldValue st' k = soldValue st k + hits u m k lo N * quotient (amount ev) N"
      using st'(4) t3 h by (simp add: algebra_simps)
    moreover have "(0 < hits u m k lo N \<or> (\<exists>p. marketPositions st k = Some p \<and> settled p)
        \<longrightarrow> (\<exists>p. marketPositions st' k = Some p \<and> settled p))"
      using st'(9) e1 h hits_nonneg [of u m k "lo + 1" N] by (auto split: if_splits)
    moreover have "hits u m k lo N = 0 \<longrightarrow> marketPositions st' k = marketPositions st k"
      using st'(10) pos1 h hits_nonneg [of u m k "lo + 1" N] by (auto split: if_splits)
    ultimately show ?thesis
      using run st'(3,5,6,7,8) t2 t4 s1 by (simp add: st1_def save_frame)
  next
    case False
    then have "merge_loop st u m ev N lo = Inr st" by (subst merge_loop.simps) simp
    with False show ?thesis by (simp add: hits_done)
  qed
qed

lemma updateMarketPositionsFromSplit_effect:
  assumes "marketMakers st mm = Some maker"
  shows "\<exists>st'. updateMarketPositionsFromSplit st mm ev = Inr st' \<and>
     bought st' k = bought st k
        + hits (toHexString (stakeholder ev)) mm k 0 (fpmm_outcomeSlotCount maker) * amount ev \<and>
     sold st' k = sold st k \<and>
     boughtValue st' k = boughtValue st k
        + hits (toHexString (stakeholder ev)) mm k 0 (fpmm_outcomeSlotCount maker)
          * quotient (amount ev) (fpmm_outcomeSlotCount maker) \<and>
     soldValue st' k = soldValue st k \<and>
     marketMakers st' = marketMakers st \<and> conditions st' = conditions st \<and>
     (ledger_settled st \<longrightarrow> ledger_settled st') \<and>
     (0 < hits (toHexString (stakeholder ev)) mm k 0 (fpmm_outcomeSlotCount maker)
        \<or> (\<exists>p. marketPositions st k = Some p \<and> settled p)
        \<longrightarrow> (\<exists>p. marketPositions st' k = Some p \<and> settled p)) \<and>
     (hits (toHexString (stakeholder ev)) mm k 0 (fpmm_outcomeSlotCount maker) = 0
        \<longrightarrow> marketPositions st' k = marketPositions st k)"
  using assms
    split_loop_effect [of 0 st "toHexString (stakeholder ev)" mm ev "fpmm_outcomeSlotCount maker" k]
  by (simp add: updateMarketPositionsFromSplit_def)

lemma updateMarketPositionsFromMerge_effect:
  assumes "marketMakers st mm = Some maker"
  shows "\<exists>st'. updateMarketPositionsFromMerge st mm ev = Inr st' \<and>
     sold st' k = sold st k
        + hits (toHexString (stakeholder ev)) mm k 0 (fpmm_outcomeSlotCount maker) * amount ev \<and>
     bought st' k = bought st k \<and>
     soldValue st' k = soldValue st k
        + hits (toHexString (stakeholder ev)) mm k 0 (fpmm_outcomeSlotCount maker)
          * quotient (amount ev) (fpmm_outcomeSlotCount maker) \<and>
     boughtValue st' k = boughtValue st k \<and>
     marketMakers st' = marketMakers st \<and> conditions st' = conditions st \<and>
     (ledger_settled st \<longrightarrow> ledger_settled st') \<and>
     (0 < hits (toHexString (stakeholder ev)) mm k 0 (fpmm_outcomeSlotCount maker)
        \<or> (\<exists>p. marketPositions st k = Some p \<and> settled p)
        \<longrightarrow> (\<exists>p. marketPositions st' k = Some p \<and> settled p)) \<and>
     (hits (toHexString (stakeholder ev)) mm k 0 (fpmm_outcomeSlotCount maker) = 0
        \<longrightarrow> marketPositions st' k = marketPositions st k)"
  using assms
    merge_loop_effect [of 0 st "toHexString (stakeholder ev)" mm ev "fpmm_outcomeSlotCount maker" k]
  by (simp add: updateMarketPositionsFromMerge_def)

section \<open>Keys of one user and market\<close>

text \<open>
  The decimal digits determine the number, so the keys of one user and market differ
  for different outcome indices, and a loop writes each of its positions once.
\<close>

lemma digit_char_code: "d < 10 \<Longrightarrow> of_char (digit_char d) = 48 + d"
proof -
  assume "d < 10"
  then have "d = 0 \<or> d = 1 \<or> d = 2 \<or> d = 3 \<or> d = 4 \<or> d = 5 \<or> d = 6 \<or> d = 7 \<or> d = 8 \<or> d = 9"
    by arith
  then show ?thesis by (elim disjE) (simp_all add: digit_char_def)
qed

lemma nat_toString_value:
  "foldl (\<lambda>a c. 10 * a + (of_char c - 48)) 0 (nat_toString n) = n"
proof (induction n rule: nat_toString.induct)
  case (1 n)
  show ?case
  proof (cases "n < 10")
    case True
    then show ?thesis by (subst nat_toString.simps) (simp add: digit_char_code)
  next
    case False
    have "n mod 10 < 10" by simp
    then have "of_char (digit_char (n mod 10)) = 48 + n mod 10" by (rule digit_char_code)
    with False "1.IH" show ?thesis by (subst nat_toString.simps) simp
  qed
qed

lemma nat_toString_inj: "nat_toString a = nat_toString b \<Longrightarrow> a = b"
  by (metis nat_toString_value)

lemma positionId_inj: "0 \<le> i \<Longrightarrow> 0 \<le> j \<Longrightarrow> positionId u m i = positionId u m j \<Longrightarrow> i = j"
proof -
  assume a: "0 \<le> i" "0 \<le> j" "positionId u m i = positionId u m j"
  then have "nat_toString (nat i) = nat_toString (nat j)"
    by (simp add: positionId_def BigInt_toString_def)
  then have "nat i = nat j" by (rule nat_toString_inj)
  with a show ?thesis by simp
qed

lemma hits_one: "0 \<le> lo \<Longrightarrow> lo \<le> i \<Longrightarrow> i < hi \<Longrightarrow> hits u m (positionId u m i) lo hi = 1"
proof -
  assume a: "0 \<le> lo" "lo \<le> i" "i < hi"
  have "filter (\<lambda>j. positionId u m j = positionId u m i) [lo..hi - 1] = filter (\<lambda>j. j = i) [lo..hi - 1]"
  proof (rule filter_cong [OF refl])
    fix x assume "x \<in> set [lo..hi - 1]"
    then have "0 \<le> x" using a by simp
    then show "(positionId u m x = positionId u m i) = (x = i)"
      using a positionId_inj [of x i u m] by auto
  qed
  moreover have "length (filter (\<lambda>j. j = i) [lo..hi - 1]) = card ({j. j = i} \<inter> set [lo..hi - 1])"
    by (rule distinct_length_filter) simp
  moreover have "{j. j = i} \<inter> set [lo..hi - 1] = {i}" using a by auto
  ultimately show ?thesis by (simp add: hits_def)
qed

lemma nat_toString_digits:
  "nat_toString 0 = ''0''" "nat_toString (Suc 0) = ''1''" "nat_toString 1 = ''1''"
  "nat_toString 2 = ''2''"
  by (subst nat_toString.simps, simp add: digit_char_def)+

section \<open>The decoding loop\<close>

text \<open>
  Up to \<open>2 ^ 30\<close> the shifted bit is the power of two and the loop stops at the least
  power that reaches the index set. No shifted bit is above \<open>2 ^ 30\<close>, so the loop
  cannot stop for a greater index set.
\<close>

lemma shl_i32_small: "0 \<le> k \<Longrightarrow> k \<le> 30 \<Longrightarrow> shl_i32 1 k = 2 ^ nat k"
proof -
  assume k: "0 \<le> k" "k \<le> 30"
  then have "nat k \<le> 30" by simp
  then have "(2::int) ^ nat k \<le> 2 ^ 30" by (rule power_increasing) simp
  moreover have "(0::int) < 2 ^ nat k" by simp
  moreover have "k mod 32 = k" using k by simp
  ultimately show ?thesis by (simp add: shl_i32_def i32_def)
qed

lemma i32_small: "0 \<le> k \<Longrightarrow> k \<le> 30 \<Longrightarrow> i32 (k + 1) = k + 1"
  by (simp add: i32_def)

lemma outcomeIndex_loop_least:
  "m \<le> 2 ^ 30 \<Longrightarrow> 0 \<le> i \<Longrightarrow> i \<le> 30 \<Longrightarrow>
   \<exists>k. i \<le> k \<and> k \<le> 30 \<and> outcomeIndex_loop m i = Some k \<and> m \<le> 2 ^ nat k \<and>
       (\<forall>j. i \<le> j \<and> j < k \<longrightarrow> 2 ^ nat j < m)"
proof (induction "nat (30 - i)" arbitrary: i)
  case 0
  then have i: "i = 30" by simp
  have "shl_i32 1 30 = 2 ^ 30" using shl_i32_small [of 30] by simp
  with 0 i have "outcomeIndex_loop m i = Some 30"
    by (subst outcomeIndex_loop.simps) simp
  with 0 i show ?case by auto
next
  case (Suc n)
  then have i: "0 \<le> i" "i < 30" by simp_all
  have sh: "shl_i32 1 i = 2 ^ nat i" using shl_i32_small [of i] i by simp
  show ?case
  proof (cases "2 ^ nat i < m")
    case True
    have n: "n = nat (30 - (i + 1))" using Suc.hyps(2) by simp
    from Suc.hyps(1) [OF n Suc.prems(1)] i
    obtain k where k: "i + 1 \<le> k" "k \<le> 30" "outcomeIndex_loop m (i + 1) = Some k"
      "m \<le> 2 ^ nat k" "\<forall>j. i + 1 \<le> j \<and> j < k \<longrightarrow> 2 ^ nat j < m"
      by auto
    have "outcomeIndex_loop m i = outcomeIndex_loop m (i + 1)"
      using True sh i32_small [of i] i by (subst outcomeIndex_loop.simps) simp
    moreover have "\<forall>j. i \<le> j \<and> j < k \<longrightarrow> 2 ^ nat j < m"
    proof (intro allI impI)
      fix j assume "i \<le> j \<and> j < k"
      then consider "j = i" | "i + 1 \<le> j \<and> j < k" by linarith
      then show "2 ^ nat j < m" using True k(5) by cases auto
    qed
    ultimately show ?thesis using k by (intro exI [of _ k]) auto
  next
    case False
    then have "outcomeIndex_loop m i = Some i"
      using sh by (subst outcomeIndex_loop.simps) simp
    with False i show ?thesis by (intro exI [of _ i]) auto
  qed
qed

lemma outcomeIndex_loop_stops:
  "outcomeIndex_loop m i = Some k \<Longrightarrow> \<not> shl_i32 1 k < m"
proof (rule outcomeIndex_loop.raw_induct [where P = "\<lambda>m i k. \<not> shl_i32 1 k < m"])
  show "outcomeIndex_loop m i = Some k \<Longrightarrow> outcomeIndex_loop m i = Some k" .
qed (auto split: if_splits)

lemma shl_i32_le: "shl_i32 1 k \<le> 2 ^ 30"
proof -
  have r: "0 \<le> k mod 32" "k mod 32 < 32" by simp_all
  show ?thesis
  proof (cases "k mod 32 = 31")
    case True
    then show ?thesis by (simp add: shl_i32_def i32_def)
  next
    case False
    with r have le: "k mod 32 \<le> 30" by linarith
    have "shl_i32 1 k = shl_i32 1 (k mod 32)" by (simp add: shl_i32_def)
    also have "\<dots> = 2 ^ nat (k mod 32)" using shl_i32_small [of "k mod 32"] le by simp
    also have "\<dots> \<le> 2 ^ 30" using le by (intro power_increasing) auto
    finally show ?thesis .
  qed
qed

lemma outcomeIndex_loop_diverges: "2 ^ 30 < m \<Longrightarrow> outcomeIndex_loop m i = None"
proof (cases "outcomeIndex_loop m i")
  case None then show ?thesis by simp
next
  case (Some k)
  assume "2 ^ 30 < m"
  with shl_i32_le [of k] have "shl_i32 1 k < m" by linarith
  with outcomeIndex_loop_stops [OF Some] show ?thesis by simp
qed

lemma decodeIndexSet_least:
  assumes "- (2 ^ 31) \<le> m" and "m \<le> 2 ^ 30"
  shows "\<exists>k\<le>30. decodeIndexSet m = Inr (int k) \<and> m \<le> 2 ^ k \<and> (\<forall>j<k. 2 ^ j < m)"
proof -
  from assms have "i32 m = m" by (simp add: i32_def)
  with assms have t: "toI32 m = Some m" by (simp add: toI32_def)
  from outcomeIndex_loop_least [OF assms(2), of 0]
  obtain k where k: "0 \<le> k" "k \<le> 30" "outcomeIndex_loop m 0 = Some k" "m \<le> 2 ^ nat k"
    "\<forall>j. 0 \<le> j \<and> j < k \<longrightarrow> 2 ^ nat j < m" by auto
  have "\<forall>j<nat k. 2 ^ j < m"
  proof (intro allI impI)
    fix j assume "j < nat k"
    then have "0 \<le> int j \<and> int j < k" by simp
    with k(5) have "2 ^ nat (int j) < m" by blast
    then show "2 ^ j < m" by simp
  qed
  with k t show ?thesis
    by (intro exI [of _ "nat k"]) (simp add: decodeIndexSet_def)
qed

lemma decodeIndexSet_power: "k \<le> 30 \<Longrightarrow> decodeIndexSet (2 ^ k) = Inr (int k)"
proof -
  assume k: "k \<le> 30"
  then have "(2::int) ^ k \<le> 2 ^ 30" by (intro power_increasing) auto
  moreover have "- (2 ^ 31) \<le> (2::int) ^ k" by (rule order_trans [of _ 0]) simp_all
  ultimately obtain k' where k': "decodeIndexSet (2 ^ k) = Inr (int k')"
    "(2::int) ^ k \<le> 2 ^ k'" "\<forall>j<k'. (2::int) ^ j < 2 ^ k"
    using decodeIndexSet_least [of "2 ^ k"] by blast
  from k'(2) have "k \<le> k'" by simp
  moreover have "\<not> k < k'" using k'(3) by auto
  ultimately show ?thesis using k'(1) by simp
qed

lemma decodeIndexSet_1: "decodeIndexSet 1 = Inr 0"
  using decodeIndexSet_power [of 0] by simp

lemma decodeIndexSet_sign_bit: "decodeIndexSet (2 ^ 31) = Inr 0"
proof -
  have "toI32 (2 ^ 31) = Some (- (2 ^ 31))" by (simp add: toI32_def i32_def)
  moreover have "outcomeIndex_loop (- (2 ^ 31)) 0 = Some 0"
    by (subst outcomeIndex_loop.simps) (simp add: shl_i32_def i32_def)
  ultimately show ?thesis by (simp add: decodeIndexSet_def)
qed

lemma decodeIndexSet_overflow: "32 \<le> k \<Longrightarrow> decodeIndexSet (2 ^ k) = Inl (Abort I32Overflow ())"
proof -
  assume "32 \<le> k"
  then have "(2::int) ^ 32 \<le> 2 ^ k" by (intro power_increasing) auto
  then have "toI32 (2 ^ k) = None" by (simp add: toI32_def)
  then show ?thesis by (simp add: decodeIndexSet_def)
qed

section \<open>Resolution and the redemption loop\<close>

text \<open>
  One iteration of the redemption leaves its position zeroed and the ledger settled,
  and later iterations keep both.
\<close>

lemma redemption_loop_single:
  "redemption_loop st u m ns d [indexSet] = Inr st' \<Longrightarrow>
     \<exists>k. decodeIndexSet indexSet = Inr k \<and>
       (\<forall>key. key \<noteq> positionId u m k \<longrightarrow> marketPositions st' key = marketPositions st key)"
  by (auto simp: Let_def save_positions getMarketPosition_id
      split: sum.splits if_splits option.splits)

lemma redeem_step:
  assumes "ledger_settled st"
    and p_def: "p = getMarketPosition st u m i"
    and st1_def: "st1 = updateNetPositionAndSave st
      (p\<lparr>quantitySold := quantitySold p + netQuantity p, valueSold := valueSold p + v\<rparr>)"
  shows "ledger_settled st1" and "zeroed st1 (positionId u m i)"
    and "zeroed st k \<Longrightarrow> zeroed st1 k" and "bought st1 k = bought st k"
proof -
  have s: "settled p" unfolding p_def using assms(1) by (rule getMarketPosition_settled)
  have id: "mp_id p = positionId u m i" by (simp add: p_def getMarketPosition_id)
  show "ledger_settled st1" unfolding st1_def using assms(1) by (rule save_settled)
  show "zeroed st1 (positionId u m i)"
    using s by (simp add: zeroed_def st1_def save_positions id settled_def)
  show "bought st1 k = bought st k"
    by (simp add: st1_def save_totals id) (simp add: p_def getMarketPosition_fields)
  show "zeroed st1 k" if z: "zeroed st k"
  proof (cases "k = positionId u m i")
    case True
    then show ?thesis using \<open>zeroed st1 (positionId u m i)\<close> by simp
  next
    case False
    then show ?thesis using z by (simp add: zeroed_def st1_def save_positions id)
  qed
qed

lemma redemption_loop_zeroes:
  "ledger_settled st \<Longrightarrow> redemption_loop st u m ns d sets = Inr st' \<Longrightarrow>
     ledger_settled st' \<and> (\<forall>k. zeroed st k \<longrightarrow> zeroed st' k) \<and>
     (\<forall>k. bought st' k = bought st k) \<and>
     (\<forall>s\<in>set sets. \<exists>k. decodeIndexSet s = Inr k \<and> zeroed st' (positionId u m k))"
proof (induction sets arbitrary: st)
  case Nil
  then show ?case by simp
next
  case (Cons s rest)
  from Cons.prems(2) obtain i where i: "decodeIndexSet s = Inr i"
    by (auto split: sum.splits)
  define p where "p = getMarketPosition st u m i"
  from Cons.prems(2) i obtain v where v: "BigInt_div (netQuantity p * ns ! nat i) d = Some v"
    by (auto simp: Let_def p_def split: if_splits option.splits)
  define st1 where "st1 = updateNetPositionAndSave st
      (p\<lparr>quantitySold := quantitySold p + netQuantity p, valueSold := valueSold p + v\<rparr>)"
  have run: "redemption_loop st1 u m ns d rest = Inr st'"
    using Cons.prems(2) i v by (auto simp: Let_def p_def st1_def split: if_splits)
  note step = redeem_step [OF Cons.prems(1) p_def st1_def]
  from Cons.IH [OF step(1) run]
  have ih: "ledger_settled st'" "\<forall>k. zeroed st1 k \<longrightarrow> zeroed st' k"
    "\<forall>k. bought st' k = bought st1 k"
    "\<forall>s\<in>set rest. \<exists>k. decodeIndexSet s = Inr k \<and> zeroed st' (positionId u m k)"
    by auto
  have "zeroed st' (positionId u m i)" using ih(2) step(2) by blast
  moreover have "\<forall>k. zeroed st k \<longrightarrow> zeroed st' k" using ih(2) step(3) by blast
  moreover have "\<forall>k. bought st' k = bought st k" using ih(3) step(4) by simp
  ultimately show ?case using ih(1,4) i by auto
qed

lemma redemption_loop_returns:
  "d \<noteq> 0 \<Longrightarrow>
   \<forall>s\<in>set sets. \<exists>k. decodeIndexSet s = Inr k \<and> 0 \<le> k \<and> k < int (length ns) \<Longrightarrow>
   \<exists>st'. redemption_loop st u m ns d sets = Inr st'"
proof (induction sets arbitrary: st)
  case Nil
  then show ?case by simp
next
  case (Cons s rest)
  then obtain k where k: "decodeIndexSet s = Inr k" "0 \<le> k" "k < int (length ns)" by auto
  have "\<forall>s\<in>set rest. \<exists>k. decodeIndexSet s = Inr k \<and> 0 \<le> k \<and> k < int (length ns)"
    using Cons.prems(2) by simp
  from Cons.IH [OF Cons.prems(1) this] k Cons.prems(1) show ?case
    by (simp add: Let_def BigInt_div_def)
qed

lemma handleConditionResolution_3_1:
  assumes "conditions st (toHexString (cr_conditionId resolution)) = Some condition"
    and "cr_payoutNumerators resolution = [3, 1]"
  shows "\<exists>st1 c1.
      handleConditionResolution st resolution = Inr st1 \<and>
      conditions st1 (toHexString (cr_conditionId resolution)) = Some c1 \<and>
      payoutNumerators c1 = Some [3, 1] \<and> payoutDenominator c1 = Some 4 \<and>
      payouts c1 = Some [3 / 4, 1 / 4] \<and>
      marketPositions st1 = marketPositions st"
  using assms
  by (simp add: handleConditionResolution_def Condition_load_def Let_def bigZero_def
      toBigDecimal_def divDecimal_def Condition_save_def Global_save_def)

lemma redeem_100_of_3_1:
  assumes "conditions st1 (toHexString (pr_conditionId redemption)) = Some c1"
    and "payoutNumerators c1 = Some [3, 1]" and "payoutDenominator c1 = Some 4"
    and "indexSets redemption = [1]"
    and "marketPositions st1 (positionId (toHexString (redeemer redemption)) mm 0) = Some position"
    and "netQuantity position = 100"
    and "quantityBought position - quantitySold position = 100"
  shows "\<exists>st2 p.
      updateMarketPositionsFromRedemption st1 mm redemption = Inr st2 \<and>
      marketPositions st2 (positionId (toHexString (redeemer redemption)) mm 0) = Some p \<and>
      valueSold p = valueSold position + 75 \<and>
      quantitySold p = quantitySold position + 100 \<and>
      netQuantity p = 0"
  using assms
  by (simp add: updateMarketPositionsFromRedemption_def Condition_load_def decodeIndexSet_1
      Let_def getMarketPosition_def MarketPosition_load_def BigInt_div_def save_positions)

section \<open>Every ledger operation keeps the ledger settled\<close>

text \<open>
  The operations on positions start from a store without positions and keep every
  stored position settled.
\<close>

lemma updateMarketPositionFromTrade_settled:
  "ledger_settled st \<Longrightarrow> updateMarketPositionFromTrade st ev = Inr st' \<Longrightarrow> ledger_settled st'"
  by (auto simp: updateMarketPositionFromTrade_def Let_def save_settled split: option.splits)

lemma updateMarketPositionsFromSplit_settled:
  assumes "ledger_settled st" and "updateMarketPositionsFromSplit st mm ev = Inr st'"
  shows "ledger_settled st'"
proof -
  from assms(2) obtain maker where "marketMakers st mm = Some maker"
    by (auto simp: updateMarketPositionsFromSplit_def split: option.splits)
  from updateMarketPositionsFromSplit_effect [OF this, of ev undefined] assms show ?thesis
    by auto
qed

lemma updateMarketPositionsFromMerge_settled:
  assumes "ledger_settled st" and "updateMarketPositionsFromMerge st mm ev = Inr st'"
  shows "ledger_settled st'"
proof -
  from assms(2) obtain maker where "marketMakers st mm = Some maker"
    by (auto simp: updateMarketPositionsFromMerge_def split: option.splits)
  from updateMarketPositionsFromMerge_effect [OF this, of ev undefined] assms show ?thesis
    by auto
qed

lemma updateMarketPositionsFromRedemption_settled:
  assumes "ledger_settled st" and "updateMarketPositionsFromRedemption st mm ev = Inr st'"
  shows "ledger_settled st'"
  using assms redemption_loop_zeroes [OF assms(1)]
  by (auto simp: updateMarketPositionsFromRedemption_def ledger_settled_def log_error_frame
      split: option.splits)

section \<open>The handlers\<close>

text \<open>
  Past its two guards a handler saves the audit row and looks the condition up in a
  store that has the ledger of the store it started from.
\<close>

lemma helpers_same_ledger:
  assumes "helpers_keep_ledger env"
  shows "same_ledger st (getCollateralDetails env token st)"
    and "same_ledger st (requireAccount env account timestamp st)"
    and "same_ledger st (markAccountAsSeen env account timestamp st)"
  using assms by (simp_all add: helpers_keep_ledger_def)

lemma same_ledger_trans: "same_ledger a b \<Longrightarrow> same_ledger b c \<Longrightarrow> same_ledger a c"
  by (simp add: same_ledger_def)

lemma handlePositionSplit_recorded:
  assumes "helpers_keep_ledger env"
    and "marketMakers st (toHexString (stakeholder event)) = None"
    and "toHexString (stakeholder event) \<noteq> NegRiskAdapter_address env"
    and "toHexString (stakeholder event) \<noteq> Exchange_address env"
  shows "\<exists>st4. same_ledger st st4 \<and>
      splits st4 (getEventKey env (event_base event)) =
        Some \<lparr>row_timestamp = block_timestamp (event_base event),
              row_stakeholder = toHexString (stakeholder event),
              row_collateralToken = toHexString (collateralToken event),
              row_parentCollectionId = parentCollectionId event,
              row_condition = toHexString (conditionId event),
              row_partition = partition event, row_amount = amount event\<rparr> \<and>
      handlePositionSplit env st event =
        (case Condition_load st4 (toHexString (conditionId event)) of
           None \<Rightarrow>
             Inr (log_error st4 ''Failed to update market positions: condition {} not prepared''
                    [toHexString (conditionId event)])
         | Some condition \<Rightarrow>
             if partitionCheck env (partition event) (outcomeSlotCount condition)
             then split_marketMakers st4 (fixedProductMarketMakers condition) event
             else Inr st4)"
proof -
  let ?a = "toHexString (stakeholder event)" and ?t = "block_timestamp (event_base event)"
  let ?st1 = "getCollateralDetails env (collateralToken event) st"
  let ?st2 = "requireAccount env ?a ?t ?st1"
  let ?st3 = "markAccountAsSeen env ?a ?t ?st2"
  let ?row = "\<lparr>row_timestamp = ?t, row_stakeholder = ?a,
              row_collateralToken = toHexString (collateralToken event),
              row_parentCollectionId = parentCollectionId event,
              row_condition = toHexString (conditionId event),
              row_partition = partition event, row_amount = amount event\<rparr>"
  let ?st4 = "?st3\<lparr>splits := (splits ?st3)(getEventKey env (event_base event) \<mapsto> ?row)\<rparr>"
  have "same_ledger st ?st3"
    using helpers_same_ledger [OF assms(1)] by (blast intro: same_ledger_trans)
  then have "same_ledger st ?st4" by (simp add: same_ledger_def)
  moreover have "splits ?st4 (getEventKey env (event_base event)) = Some ?row" by simp
  moreover have "handlePositionSplit env st event =
        (case Condition_load ?st4 (toHexString (conditionId event)) of
           None \<Rightarrow>
             Inr (log_error ?st4 ''Failed to update market positions: condition {} not prepared''
                    [toHexString (conditionId event)])
         | Some condition \<Rightarrow>
             if partitionCheck env (partition event) (outcomeSlotCount condition)
             then split_marketMakers ?st4 (fixedProductMarketMakers condition) event
             else Inr ?st4)"
    using assms(2-4) by (simp add: handlePositionSplit_def Let_def cong: option.case_cong)
  ultimately show ?thesis by blast
qed

lemma handlePositionsMerge_recorded:
  assumes "helpers_keep_ledger env"
    and "marketMakers st (toHexString (stakeholder event)) = None"
    and "toHexString (stakeholder event) \<noteq> NegRiskAdapter_address env"
    and "toHexString (stakeholder event) \<noteq> Exchange_address env"
  shows "\<exists>st4. same_ledger st st4 \<and>
      merges st4 (getEventKey env (event_base event)) =
        Some \<lparr>row_timestamp = block_timestamp (event_base event),
              row_stakeholder = toHexString (stakeholder event),
              row_collateralToken = toHexString (collateralToken event),
              row_parentCollectionId = parentCollectionId event,
              row_condition = toHexString (conditionId event),
              row_partition = partition event, row_amount = amount event\<rparr> \<and>
      handlePositionsMerge env st event =
        (case Condition_load st4 (toHexString (conditionId event)) of
           None \<Rightarrow>
             Inr (log_error st4 ''Failed to update market positions: condition {} not prepared''
                    [toHexString (conditionId event)])
         | Some condition \<Rightarrow>
             if partitionCheck env (partition event) (outcomeSlotCount condition)
             then merge_marketMakers st4 (fixedProductMarketMakers condition) event
             else Inr st4)"
proof -
  let ?a = "toHexString (stakeholder event)" and ?t = "block_timestamp (event_base event)"
  let ?st2 = "requireAccount env ?a ?t st"
  let ?st3 = "markAccountAsSeen env ?a ?t ?st2"
  let ?row = "\<lparr>row_timestamp = ?t, row_stakeholder = ?a,
              row_collateralToken = toHexString (collateralToken event),
              row_parentCollectionId = parentCollectionId event,
              row_condition = toHexString (conditionId event),
              row_partition = partition event, row_amount = amount event\<rparr>"
  let ?st4 = "?st3\<lparr>merges := (merges ?st3)(getEventKey env (event_base event) \<mapsto> ?row)\<rparr>"
  have "same_ledger st ?st3"
    using helpers_same_ledger [OF assms(1)] by (blast intro: same_ledger_trans)
  then have "same_ledger st ?st4" by (simp add: same_ledger_def)
  moreover have "merges ?st4 (getEventKey env (event_base event)) = Some ?row" by simp
  moreover have "handlePositionsMerge env st event =
        (case Condition_load ?st4 (toHexString (conditionId event)) of
           None \<Rightarrow>
             Inr (log_error ?st4 ''Failed to update market positions: condition {} not prepared''
                    [toHexString (conditionId event)])
         | Some condition \<Rightarrow>
             if partitionCheck env (partition event) (outcomeSlotCount condition)
             then merge_marketMakers ?st4 (fixedProductMarketMakers condition) event
             else Inr ?st4)"
    using assms(2-4) by (simp add: handlePositionsMerge_def Let_def cong: option.case_cong)
  ultimately show ?thesis by blast
qed

lemma handlePayoutRedemption_recorded:
  assumes "helpers_keep_ledger env"
    and "toHexString (redeemer event) \<noteq> NegativeRiskAdapter_address env"
  shows "\<exists>st4. same_ledger st st4 \<and>
      redemptions st4 (getEventKey env (pr_event_base event)) =
        Some \<lparr>red_timestamp = block_timestamp (pr_event_base event),
              red_redeemer = toHexString (redeemer event),
              red_collateralToken = toHexString (pr_collateralToken event),
              red_parentCollectionId = pr_parentCollectionId event,
              red_condition = toHexString (pr_conditionId event),
              red_indexSets = indexSets event, red_payout = payout event\<rparr> \<and>
      handlePayoutRedemption env st event =
        (case Condition_load st4 (toHexString (pr_conditionId event)) of
           None \<Rightarrow>
             Inr (log_error st4 ''Failed to update market positions: condition {} not prepared''
                    [toHexString (pr_conditionId event)])
         | Some condition \<Rightarrow>
             redemption_marketMakers st4 (fixedProductMarketMakers condition) event)"
proof -
  let ?a = "toHexString (redeemer event)" and ?t = "block_timestamp (pr_event_base event)"
  let ?st2 = "requireAccount env ?a ?t st"
  let ?st3 = "markAccountAsSeen env ?a ?t ?st2"
  let ?row = "\<lparr>red_timestamp = ?t, red_redeemer = ?a,
              red_collateralToken = toHexString (pr_collateralToken event),
              red_parentCollectionId = pr_parentCollectionId event,
              red_condition = toHexString (pr_conditionId event),
              red_indexSets = indexSets event, red_payout = payout event\<rparr>"
  let ?st4 = "?st3\<lparr>redemptions :=
      (redemptions ?st3)(getEventKey env (pr_event_base event) \<mapsto> ?row)\<rparr>"
  have "same_ledger st ?st3"
    using helpers_same_ledger [OF assms(1)] by (blast intro: same_ledger_trans)
  then have "same_ledger st ?st4" by (simp add: same_ledger_def)
  moreover have "redemptions ?st4 (getEventKey env (pr_event_base event)) = Some ?row" by simp
  moreover have "handlePayoutRedemption env st event =
        (case Condition_load ?st4 (toHexString (pr_conditionId event)) of
           None \<Rightarrow>
             Inr (log_error ?st4 ''Failed to update market positions: condition {} not prepared''
                    [toHexString (pr_conditionId event)])
         | Some condition \<Rightarrow>
             redemption_marketMakers ?st4 (fixedProductMarketMakers condition) event)"
    using assms(2) by (simp add: handlePayoutRedemption_def Let_def cong: option.case_cong)
  ultimately show ?thesis by blast
qed

lemma split_marketMakers_effect:
  "split_marketMakers st mms ev = Inr st' \<Longrightarrow>
     bought st' k = bought st k
        + split_writes (marketMakers st) (toHexString (stakeholder ev)) mms k * amount ev \<and>
     marketMakers st' = marketMakers st \<and> conditions st' = conditions st"
proof (induction mms arbitrary: st)
  case Nil
  then show ?case by (simp add: split_writes_def)
next
  case (Cons m rest)
  from Cons.prems obtain st1 where st1: "updateMarketPositionsFromSplit st m ev = Inr st1"
    "split_marketMakers st1 rest ev = Inr st'"
    by (auto split: sum.splits)
  from st1(1) obtain maker where maker: "marketMakers st m = Some maker"
    by (auto simp: updateMarketPositionsFromSplit_def split: option.splits)
  from updateMarketPositionsFromSplit_effect [OF maker, of ev k] st1(1)
  have e: "bought st1 k = bought st k
        + hits (toHexString (stakeholder ev)) m k 0 (fpmm_outcomeSlotCount maker) * amount ev"
    "marketMakers st1 = marketMakers st" "conditions st1 = conditions st"
    by auto
  from Cons.IH [OF st1(2)] e maker show ?case
    by (simp add: split_writes_def slotCount_def algebra_simps)
qed

lemma split_marketMakers_returns:
  "\<forall>m\<in>set mms. marketMakers st m \<noteq> None \<Longrightarrow> \<exists>st'. split_marketMakers st mms ev = Inr st'"
proof (induction mms arbitrary: st)
  case Nil
  then show ?case by simp
next
  case (Cons m rest)
  then obtain maker where maker: "marketMakers st m = Some maker" by auto
  from updateMarketPositionsFromSplit_effect [OF maker, of ev undefined]
  obtain st1 where st1: "updateMarketPositionsFromSplit st m ev = Inr st1"
    "marketMakers st1 = marketMakers st"
    by auto
  have "\<forall>m\<in>set rest. marketMakers st1 m \<noteq> None" using Cons.prems st1(2) by simp
  from Cons.IH [OF this] st1(1) show ?case by simp
qed

lemma handlePositionSplit_increase:
  assumes "helpers_keep_ledger env" and "handlePositionSplit env st ev = Inr st'"
  shows "bought st' k = bought st k + split_increase env st ev k \<and>
     marketMakers st' = marketMakers st \<and> conditions st' = conditions st"
proof (cases "marketMakers st (toHexString (stakeholder ev)) \<noteq> None
    \<or> toHexString (stakeholder ev) \<in> set [NegRiskAdapter_address env, Exchange_address env]")
  case True
  then have "handlePositionSplit env st ev = Inr st"
    by (auto simp: handlePositionSplit_def)
  with assms(2) True show ?thesis by (simp add: split_increase_def)
next
  case False
  then have f: "marketMakers st (toHexString (stakeholder ev)) = None"
    "toHexString (stakeholder ev) \<noteq> NegRiskAdapter_address env"
    "toHexString (stakeholder ev) \<noteq> Exchange_address env" by auto
  from handlePositionSplit_recorded [OF assms(1) f]
  obtain st4 where st4: "same_ledger st st4"
    "handlePositionSplit env st ev =
        (case Condition_load st4 (toHexString (conditionId ev)) of
           None \<Rightarrow>
             Inr (log_error st4 ''Failed to update market positions: condition {} not prepared''
                    [toHexString (conditionId ev)])
         | Some condition \<Rightarrow>
             if partitionCheck env (partition ev) (outcomeSlotCount condition)
             then split_marketMakers st4 (fixedProductMarketMakers condition) ev
             else Inr st4)"
    by blast
  have same: "marketPositions st4 = marketPositions st" "marketMakers st4 = marketMakers st"
    "conditions st4 = conditions st"
    using st4(1) by (simp_all add: same_ledger_def)
  have b4: "bought st4 k = bought st k" by (simp add: bought_def same)
  show ?thesis
  proof (cases "conditions st (toHexString (conditionId ev))")
    case None
    then have "Condition_load st4 (toHexString (conditionId ev)) = None"
      by (simp add: Condition_load_def same)
    with st4(2) assms(2) have "st' = log_error st4
        ''Failed to update market positions: condition {} not prepared''
        [toHexString (conditionId ev)]" by simp
    then show ?thesis using None False same
      by (simp add: split_increase_def log_error_frame bought_def)
  next
    case (Some c)
    let ?c = "c\<lparr>condition_id := toHexString (conditionId ev)\<rparr>"
    have l: "Condition_load st4 (toHexString (conditionId ev)) = Some ?c"
      using Some by (simp add: Condition_load_def same)
    show ?thesis
    proof (cases "partitionCheck env (partition ev) (outcomeSlotCount c)")
      case True
      with st4(2) l assms(2)
      have "split_marketMakers st4 (fixedProductMarketMakers c) ev = Inr st'" by simp
      from split_marketMakers_effect [OF this, of k] show ?thesis
        using Some True False same b4 by (simp add: split_increase_def)
    next
      case no: False
      with st4(2) l assms(2) have "st' = st4" by simp
      then show ?thesis using Some no False same b4 by (simp add: split_increase_def)
    qed
  qed
qed

lemma split_increase_same:
  "marketMakers t = marketMakers st \<Longrightarrow> conditions t = conditions st \<Longrightarrow>
     split_increase env t ev k = split_increase env st ev k"
  by (simp add: split_increase_def cong: option.case_cong if_cong)

lemma handlePositionSplit_returns:
  assumes "helpers_keep_ledger env"
    and "conditions st (toHexString (conditionId ev)) = Some c"
    and "\<forall>m\<in>set (fixedProductMarketMakers c). marketMakers st m \<noteq> None"
  shows "\<exists>st'. handlePositionSplit env st ev = Inr st'"
proof (cases "marketMakers st (toHexString (stakeholder ev)) \<noteq> None
    \<or> toHexString (stakeholder ev) \<in> set [NegRiskAdapter_address env, Exchange_address env]")
  case True
  then have "handlePositionSplit env st ev = Inr st"
    by (auto simp: handlePositionSplit_def)
  then show ?thesis by simp
next
  case False
  then have f: "marketMakers st (toHexString (stakeholder ev)) = None"
    "toHexString (stakeholder ev) \<noteq> NegRiskAdapter_address env"
    "toHexString (stakeholder ev) \<noteq> Exchange_address env" by auto
  from handlePositionSplit_recorded [OF assms(1) f]
  obtain st4 where st4: "same_ledger st st4"
    "handlePositionSplit env st ev =
        (case Condition_load st4 (toHexString (conditionId ev)) of
           None \<Rightarrow>
             Inr (log_error st4 ''Failed to update market positions: condition {} not prepared''
                    [toHexString (conditionId ev)])
         | Some condition \<Rightarrow>
             if partitionCheck env (partition ev) (outcomeSlotCount condition)
             then split_marketMakers st4 (fixedProductMarketMakers condition) ev
             else Inr st4)"
    by blast
  have same: "marketMakers st4 = marketMakers st" "conditions st4 = conditions st"
    using st4(1) by (simp_all add: same_ledger_def)
  have l: "Condition_load st4 (toHexString (conditionId ev))
      = Some (c\<lparr>condition_id := toHexString (conditionId ev)\<rparr>)"
    using assms(2) by (simp add: Condition_load_def same)
  have "\<forall>m\<in>set (fixedProductMarketMakers c). marketMakers st4 m \<noteq> None"
    using assms(3) same by simp
  from split_marketMakers_returns [OF this, of ev] st4(2) l show ?thesis
    by (cases "partitionCheck env (partition ev) (outcomeSlotCount c)") simp_all
qed

lemma replayed_split_same_increase:
  assumes "helpers_keep_ledger env"
    and "handlePositionSplit env st ev = Inr st1"
    and "handlePositionSplit env st1 ev = Inr st2"
  shows "bought st2 k - bought st1 k = bought st1 k - bought st k"
proof -
  from handlePositionSplit_increase [OF assms(1,2), of k]
  have a: "bought st1 k = bought st k + split_increase env st ev k"
    "marketMakers st1 = marketMakers st" "conditions st1 = conditions st" by simp_all
  from handlePositionSplit_increase [OF assms(1,3), of k]
  have b: "bought st2 k = bought st1 k + split_increase env st1 ev k" by simp
  from a b split_increase_same [OF a(2,3), of env ev k] show ?thesis by simp
qed

lemma replayed_split_single:
  assumes "helpers_keep_ledger env"
    and "marketMakers st (toHexString (stakeholder ev)) = None"
    and "toHexString (stakeholder ev) \<noteq> NegRiskAdapter_address env"
    and "toHexString (stakeholder ev) \<noteq> Exchange_address env"
    and "conditions st (toHexString (conditionId ev)) = Some c"
    and "partitionCheck env (partition ev) (outcomeSlotCount c)"
    and "fixedProductMarketMakers c = [mm]"
    and "marketMakers st mm = Some maker"
    and "0 \<le> i" and "i < fpmm_outcomeSlotCount maker"
  shows "\<exists>st1 st2.
      handlePositionSplit env st ev = Inr st1 \<and> handlePositionSplit env st1 ev = Inr st2 \<and>
      quantityBought (getMarketPosition st1 (toHexString (stakeholder ev)) mm i)
        = quantityBought (getMarketPosition st (toHexString (stakeholder ev)) mm i) + amount ev \<and>
      quantityBought (getMarketPosition st2 (toHexString (stakeholder ev)) mm i)
        = quantityBought (getMarketPosition st1 (toHexString (stakeholder ev)) mm i) + amount ev"
proof -
  let ?u = "toHexString (stakeholder ev)"
  let ?k = "positionId ?u mm i"
  have inc: "split_increase env st ev ?k = amount ev"
    using assms(2-10) by (simp add: split_increase_def split_writes_def slotCount_def hits_one)
  have all: "\<forall>m\<in>set (fixedProductMarketMakers c). marketMakers st m \<noteq> None"
    using assms(7,8) by simp
  from handlePositionSplit_returns [OF assms(1,5) all]
  obtain st1 where st1: "handlePositionSplit env st ev = Inr st1" by blast
  from handlePositionSplit_increase [OF assms(1) st1, of ?k]
  have a: "bought st1 ?k = bought st ?k + split_increase env st ev ?k"
    "marketMakers st1 = marketMakers st" "conditions st1 = conditions st" by simp_all
  have all1: "\<forall>m\<in>set (fixedProductMarketMakers c). marketMakers st1 m \<noteq> None"
    using all a(2) by simp
  have c1: "conditions st1 (toHexString (conditionId ev)) = Some c" using assms(5) a(3) by simp
  from handlePositionSplit_returns [OF assms(1) c1 all1]
  obtain st2 where st2: "handlePositionSplit env st1 ev = Inr st2" by blast
  from handlePositionSplit_increase [OF assms(1) st2, of ?k]
  have b: "bought st2 ?k = bought st1 ?k + split_increase env st1 ev ?k" by simp
  have "split_increase env st1 ev ?k = amount ev"
    using split_increase_same [OF a(2,3), of env ev ?k] inc by simp
  with a b inc st1 st2 show ?thesis by (simp add: getMarketPosition_fields)
qed

section \<open>The small deployment, evaluated\<close>

text \<open>
  The tables and fields of the example stores and events.
\<close>

lemma example_hex:
  "toHexString [0x0A] = ''0x0a''" "toHexString [0xC1] = ''0xc1''"
  "toHexString [0x7F] = ''0x7f''" "toHexString [0x05] = ''0x05''"
  "toHexString [0x4D] = ''0x4d''"
  by (simp_all add: toHexString_def hex_char_def)

lemma example_store_tables:
  "marketPositions example_store = Map.empty"
  "marketMakers example_store =
     [''0x4d'' \<mapsto> \<lparr>fpmm_outcomeSlotCount = 2, outcomeTokenPrices = [1 / 2, 1 / 2]\<rparr>]"
  "conditions example_store = [''0xc1'' \<mapsto> example_condition]"
  "logs example_store = []" "splits example_store = Map.empty"
  "merges example_store = Map.empty" "redemptions example_store = Map.empty"
  "transactions example_store = Map.empty" "globals example_store = Map.empty"
  "accounts example_store = Map.empty"
  by (simp_all add: example_store_def empty_store_def)

lemma empty_store_tables:
  "marketPositions empty_store = Map.empty" "transactions empty_store = Map.empty"
  "marketMakers empty_store = Map.empty" "conditions empty_store = Map.empty"
  "splits empty_store = Map.empty" "merges empty_store = Map.empty"
  "redemptions empty_store = Map.empty" "globals empty_store = Map.empty"
  "accounts empty_store = Map.empty" "logs empty_store = []"
  by (simp_all add: empty_store_def)

lemma empty_store_settled: "ledger_settled empty_store"
  by (simp add: ledger_settled_def empty_store_tables)

lemma example_split_fields:
  "stakeholder example_split = [0x0A]" "amount example_split = 10"
  "conditionId example_split = [0xC1]" "partition example_split = [1, 2]"
  "collateralToken example_split = [0x05]" "parentCollectionId example_split = []"
  "event_base example_split = example_event"
  by (simp_all add: example_split_def)

lemma example_redemption_fields:
  "redeemer example_redemption = [0x0A]" "pr_conditionId example_redemption = [0xC1]"
  "indexSets example_redemption = [1]" "payout example_redemption = 999"
  "pr_event_base example_redemption = example_event"
  "pr_collateralToken example_redemption = [0x05]"
  "pr_parentCollectionId example_redemption = []"
  by (simp_all add: example_redemption_def)

lemma example_resolved_tables:
  "marketPositions example_resolved_store = [''0x0a0x4d0'' \<mapsto> example_position]"
  "conditions example_resolved_store = [''0xc1'' \<mapsto> example_resolved_condition]"
  "marketMakers example_resolved_store = marketMakers example_store"
  "marketPositions example_holding_store = [''0x0a0x4d0'' \<mapsto> example_position]"
  "conditions example_holding_store = conditions example_store"
  "marketMakers example_holding_store = marketMakers example_store"
  "globals example_holding_store = Map.empty"
  by (simp_all add: example_resolved_store_def example_holding_store_def example_store_tables)

lemma example_settled:
  "ledger_settled example_resolved_store" "ledger_settled example_holding_store"
  "ledger_settled example_store"
  by (auto simp: ledger_settled_def example_resolved_tables example_store_tables settled_def
      example_position_def split: if_splits)

lemma example_positionId:
  "positionId ''0x0a'' ''0x4d'' 0 = ''0x0a0x4d0''" "positionId ''0x0a'' ''0x4d'' 1 = ''0x0a0x4d1''"
  by (simp_all add: positionId_def BigInt_toString_def nat_toString_digits)

lemma example_env_fields:
  "NegRiskAdapter_address example_env = ''0xa1''" "Exchange_address example_env = ''0xe1''"
  "NegativeRiskAdapter_address example_env = ''0xa2''"
  "getEventKey example_env = getEventKey_spec" "partitionCheck example_env = isFullPartition"
  "getCollateralDetails example_env = getCollateralDetails_spec"
  "requireAccount example_env = requireAccount_spec"
  "markAccountAsSeen example_env = markAccountAsSeen_spec"
  by (simp_all add: example_env_def)

lemma example_event_key: "getEventKey_spec example_event = ''0x7f7''"
proof -
  have "nat_toString 7 = ''7''" by (subst nat_toString.simps) (simp add: digit_char_def)
  then show ?thesis
    by (simp add: getEventKey_spec_def example_event_def example_hex BigInt_toString_def)
qed

lemma example_helpers_keep_ledger: "helpers_keep_ledger example_env"
  by (simp add: helpers_keep_ledger_def same_ledger_def example_env_fields
      getCollateralDetails_spec_def requireAccount_spec_def markAccountAsSeen_spec_def
      split: option.splits)

lemma example_full_partition: "isFullPartition [1, 2] 2"
  by (simp add: isFullPartition_def numeral_2_eq_2 upt_rec bit_Suc)

lemma example_condition_fields:
  "fixedProductMarketMakers example_condition = [''0x4d'']"
  "outcomeSlotCount example_condition = 2"
  by (simp_all add: example_condition_def)


section \<open>Properties of the specification\<close>

text \<open>
  C1. On a ledger whose positions are settled (as every write of the mappings leaves
  them) and a resolved condition: when \<open>updateMarketPositionsFromRedemption\<close> returns,
  the position of every index set of the event is stored with net quantity 0, its
  quantity bought unchanged and its quantity sold increased by the net quantity it had;
  the result is the same for every value of the event's \<open>payout\<close>; and the function does
  return when the denominator is not zero and every index set decodes to an index of
  the payout vector.
\<close>

theorem redemption_zeroes_position:
  assumes "ledger_settled st"
    and "conditions st (toHexString (pr_conditionId event)) = Some condition"
    and "payoutNumerators condition = Some numerators"
    and "payoutDenominator condition = Some denominator"
  shows
    "(\<forall>st'. updateMarketPositionsFromRedemption st mm event = Inr st' \<longrightarrow>
        (\<forall>indexSet\<in>set (indexSets event). \<exists>k p.
           decodeIndexSet indexSet = Inr k \<and>
           marketPositions st' (positionId (toHexString (redeemer event)) mm k) = Some p \<and>
           netQuantity p = 0 \<and>
           quantityBought p = quantityBought (getMarketPosition st (toHexString (redeemer event)) mm k) \<and>
           quantitySold p =
             quantitySold (getMarketPosition st (toHexString (redeemer event)) mm k)
             + netQuantity (getMarketPosition st (toHexString (redeemer event)) mm k))) \<and>
     (\<forall>payout'. updateMarketPositionsFromRedemption st mm (event\<lparr>payout := payout'\<rparr>)
        = updateMarketPositionsFromRedemption st mm event) \<and>
     (denominator \<noteq> 0 \<and>
      (\<forall>indexSet\<in>set (indexSets event). \<exists>k.
          decodeIndexSet indexSet = Inr k \<and> 0 \<le> k \<and> k < int (length numerators))
        \<longrightarrow> (\<exists>st'. updateMarketPositionsFromRedemption st mm event = Inr st'))"
proof -
  let ?u = "toHexString (redeemer event)"
  have run: "updateMarketPositionsFromRedemption st mm event
      = redemption_loop st ?u mm numerators denominator (indexSets event)"
    using assms(2-4) by (simp add: updateMarketPositionsFromRedemption_def Condition_load_def)
  have a: "\<exists>k p. decodeIndexSet indexSet = Inr k \<and>
           marketPositions st' (positionId ?u mm k) = Some p \<and> netQuantity p = 0 \<and>
           quantityBought p = quantityBought (getMarketPosition st ?u mm k) \<and>
           quantitySold p = quantitySold (getMarketPosition st ?u mm k)
             + netQuantity (getMarketPosition st ?u mm k)"
    if r: "updateMarketPositionsFromRedemption st mm event = Inr st'"
      and s: "indexSet \<in> set (indexSets event)" for st' indexSet
  proof -
    from redemption_loop_zeroes [OF assms(1) r [unfolded run]] s
    obtain k where k: "decodeIndexSet indexSet = Inr k" "zeroed st' (positionId ?u mm k)"
      and b: "bought st' (positionId ?u mm k) = bought st (positionId ?u mm k)"
      by blast
    from k(2) obtain p where p: "marketPositions st' (positionId ?u mm k) = Some p"
      "netQuantity p = 0" "quantitySold p = quantityBought p"
      by (auto simp: zeroed_def)
    have old: "settled (getMarketPosition st ?u mm k)"
      using assms(1) by (rule getMarketPosition_settled)
    have "quantityBought p = quantityBought (getMarketPosition st ?u mm k)"
      using b p(1) by (simp add: bought_def getMarketPosition_fields)
    with p old k(1) show ?thesis by (auto simp: settled_def)
  qed
  have b: "updateMarketPositionsFromRedemption st mm (event\<lparr>payout := payout'\<rparr>)
        = updateMarketPositionsFromRedemption st mm event" for payout'
    by (simp add: updateMarketPositionsFromRedemption_def split: option.splits)
  have c: "\<exists>st'. updateMarketPositionsFromRedemption st mm event = Inr st'"
    if "denominator \<noteq> 0"
      "\<forall>indexSet\<in>set (indexSets event). \<exists>k.
          decodeIndexSet indexSet = Inr k \<and> 0 \<le> k \<and> k < int (length numerators)"
    unfolding run using that by (rule redemption_loop_returns)
  from a b c show ?thesis by blast
qed

theorem redemption_zeroes_position_witness:
  "ledger_settled example_resolved_store \<and>
   conditions example_resolved_store ''0xc1'' = Some example_resolved_condition \<and>
   payoutNumerators example_resolved_condition = Some [3, 1] \<and>
   payoutDenominator example_resolved_condition = Some 4 \<and>
   (\<exists>st' p. updateMarketPositionsFromRedemption example_resolved_store ''0x4d''
                example_redemption = Inr st' \<and>
      marketPositions st' ''0x0a0x4d0'' = Some p \<and>
      netQuantity p = 0 \<and> quantityBought p = 100 \<and> quantitySold p = 100) \<and>
   updateMarketPositionsFromRedemption example_resolved_store ''0x4d''
       (example_redemption\<lparr>payout := 0\<rparr>)
     = updateMarketPositionsFromRedemption example_resolved_store ''0x4d'' example_redemption"
proof -
  have c: "conditions example_resolved_store (toHexString (pr_conditionId example_redemption))
      = Some example_resolved_condition"
    by (simp add: example_redemption_fields example_hex example_resolved_tables)
  have n: "payoutNumerators example_resolved_condition = Some [3, 1]"
    "payoutDenominator example_resolved_condition = Some 4"
    by (simp_all add: example_resolved_condition_def)
  have g: "getMarketPosition example_resolved_store ''0x0a'' ''0x4d'' 0 = example_position"
    by (simp add: getMarketPosition_def MarketPosition_load_def example_positionId
        example_resolved_tables example_position_def)
  note t = redemption_zeroes_position [OF example_settled(1) c n, of "''0x4d''"]
  from t have "\<exists>st'. updateMarketPositionsFromRedemption example_resolved_store ''0x4d''
      example_redemption = Inr st'"
    by (simp add: example_redemption_fields decodeIndexSet_1)
  then obtain st' where st': "updateMarketPositionsFromRedemption example_resolved_store ''0x4d''
      example_redemption = Inr st'" ..
  with t have "\<exists>p. marketPositions st' ''0x0a0x4d0'' = Some p \<and>
      netQuantity p = 0 \<and> quantityBought p = 100 \<and> quantitySold p = 100"
    by (simp add: example_redemption_fields decodeIndexSet_1 example_hex example_positionId g
        example_position_def)
  with st' t c n example_settled(1) show ?thesis
    by (simp add: example_redemption_fields example_hex)
qed

text \<open>
  C2. A split of an amount into the positions of a market maker with at least one outcome
  slot, followed by a merge of the same amount by the same stakeholder, both return, and
  leave a position that started with all-zero balances with the amount bought and sold
  once each, the same truncated quotient of the amount by the number of slots as value
  bought and value sold, and net quantity and net value 0.
\<close>

theorem split_then_merge_restores:
  assumes maker: "marketMakers st mm = Some maker"
    and i: "0 \<le> i" "i < fpmm_outcomeSlotCount maker"
    and same: "amount mergeEv = amount splitEv" "stakeholder mergeEv = stakeholder splitEv"
    and zero:
      "quantityBought (getMarketPosition st (toHexString (stakeholder splitEv)) mm i) = 0"
      "quantitySold (getMarketPosition st (toHexString (stakeholder splitEv)) mm i) = 0"
      "valueBought (getMarketPosition st (toHexString (stakeholder splitEv)) mm i) = 0"
      "valueSold (getMarketPosition st (toHexString (stakeholder splitEv)) mm i) = 0"
  shows "\<exists>st1 st2 p.
      updateMarketPositionsFromSplit st mm splitEv = Inr st1 \<and>
      updateMarketPositionsFromMerge st1 mm mergeEv = Inr st2 \<and>
      marketPositions st2 (positionId (toHexString (stakeholder splitEv)) mm i) = Some p \<and>
      quantityBought p = amount splitEv \<and> quantitySold p = amount splitEv \<and>
      BigInt_div (amount splitEv) (fpmm_outcomeSlotCount maker) = Some (valueBought p) \<and>
      valueSold p = valueBought p \<and>
      netQuantity p = 0 \<and> netValue p = 0"
proof -
  let ?u = "toHexString (stakeholder splitEv)"
  let ?N = "fpmm_outcomeSlotCount maker"
  let ?k = "positionId ?u mm i"
  have h: "hits ?u mm ?k 0 ?N = 1" using i by (simp add: hits_one)
  have h': "hits (toHexString (stakeholder mergeEv)) mm ?k 0 ?N = 1"
    using h same by simp
  have N0: "?N \<noteq> 0" using i by auto
  from updateMarketPositionsFromSplit_effect [OF maker, of splitEv ?k]
  obtain st1 where st1: "updateMarketPositionsFromSplit st mm splitEv = Inr st1"
    "bought st1 ?k = bought st ?k + amount splitEv" "sold st1 ?k = sold st ?k"
    "boughtValue st1 ?k = boughtValue st ?k + quotient (amount splitEv) ?N"
    "soldValue st1 ?k = soldValue st ?k" "marketMakers st1 = marketMakers st"
    unfolding h by auto
  have maker1: "marketMakers st1 mm = Some maker" using st1(6) maker by simp
  from updateMarketPositionsFromMerge_effect [OF maker1, of mergeEv ?k]
  obtain st2 p where st2: "updateMarketPositionsFromMerge st1 mm mergeEv = Inr st2"
    "sold st2 ?k = sold st1 ?k + amount splitEv" "bought st2 ?k = bought st1 ?k"
    "soldValue st2 ?k = soldValue st1 ?k + quotient (amount splitEv) ?N"
    "boughtValue st2 ?k = boughtValue st1 ?k"
    "marketPositions st2 ?k = Some p" "settled p"
    unfolding h' same(1) by auto
  have z: "bought st ?k = 0" "sold st ?k = 0" "boughtValue st ?k = 0" "soldValue st ?k = 0"
    using zero by (simp_all add: getMarketPosition_fields)
  have p: "quantityBought p = amount splitEv" "quantitySold p = amount splitEv"
    "valueBought p = quotient (amount splitEv) ?N" "valueSold p = quotient (amount splitEv) ?N"
    using st1 st2 z
    by (simp_all add: bought_def sold_def boughtValue_def soldValue_def)
  have "netQuantity p = 0" "netValue p = 0" using st2(7) p by (simp_all add: settled_def)
  with p st1(1) st2(1,6) N0 show ?thesis
    by (simp add: BigInt_div_quotient)
qed

theorem split_then_merge_restores_witness:
  "marketMakers example_store ''0x4d''
     = Some \<lparr>fpmm_outcomeSlotCount = 2, outcomeTokenPrices = [1 / 2, 1 / 2]\<rparr> \<and>
   quantityBought (getMarketPosition example_store ''0x0a'' ''0x4d'' 1) = 0 \<and>
   quantitySold (getMarketPosition example_store ''0x0a'' ''0x4d'' 1) = 0 \<and>
   valueBought (getMarketPosition example_store ''0x0a'' ''0x4d'' 1) = 0 \<and>
   valueSold (getMarketPosition example_store ''0x0a'' ''0x4d'' 1) = 0 \<and>
   (\<exists>st1 st2 p.
      updateMarketPositionsFromSplit example_store ''0x4d'' example_split = Inr st1 \<and>
      updateMarketPositionsFromMerge st1 ''0x4d'' example_split = Inr st2 \<and>
      marketPositions st2 ''0x0a0x4d1'' = Some p \<and>
      quantityBought p = 10 \<and> quantitySold p = 10 \<and> valueBought p = 5 \<and> valueSold p = 5 \<and>
      netQuantity p = 0 \<and> netValue p = 0)"
proof -
  have z: "quantityBought (getMarketPosition example_store ''0x0a'' ''0x4d'' 1) = 0"
    "quantitySold (getMarketPosition example_store ''0x0a'' ''0x4d'' 1) = 0"
    "valueBought (getMarketPosition example_store ''0x0a'' ''0x4d'' 1) = 0"
    "valueSold (getMarketPosition example_store ''0x0a'' ''0x4d'' 1) = 0"
    by (simp_all add: getMarketPosition_def MarketPosition_load_def example_store_tables
        bigZero_def)
  have k: "positionId ''0x0a'' ''0x4d'' 1 = ''0x0a0x4d1''"
    by (simp add: positionId_def BigInt_toString_def nat_toString_digits)
  have d: "BigInt_div 10 2 = Some 5" by (simp add: BigInt_div_def)
  show ?thesis
    using split_then_merge_restores
      [of example_store "''0x4d''"
        "\<lparr>fpmm_outcomeSlotCount = 2, outcomeTokenPrices = [1 / 2, 1 / 2]\<rparr>" 1
        example_split example_split]
    by (auto simp: z k d example_hex example_split_fields example_store_tables)
qed

text \<open>
  C3. Resolving a known condition with the numerators 3 and 1 returns and stores the
  numerators, their sum 4 as denominator and the fractions 75/100 and 25/100; a
  redemption of the index set 1 by a user whose position on outcome 0 has net quantity
  100 then returns, adds 75 (100 times 3, divided by 4) to the value sold and 100 to the
  quantity sold, and leaves net quantity 0.
\<close>

theorem resolution_3_1_then_redeem:
  assumes "conditions st (toHexString (cr_conditionId resolution)) = Some condition"
    and "cr_payoutNumerators resolution = [3, 1]"
    and "pr_conditionId redemption = cr_conditionId resolution"
    and "indexSets redemption = [1]"
    and "marketPositions st (positionId (toHexString (redeemer redemption)) mm 0) = Some position"
    and "netQuantity position = 100"
    and "quantityBought position - quantitySold position = 100"
  shows "\<exists>st1 c1 st2 p.
      handleConditionResolution st resolution = Inr st1 \<and>
      conditions st1 (toHexString (cr_conditionId resolution)) = Some c1 \<and>
      payoutNumerators c1 = Some [3, 1] \<and> payoutDenominator c1 = Some 4 \<and>
      payouts c1 = Some [75 / 100, 25 / 100] \<and>
      updateMarketPositionsFromRedemption st1 mm redemption = Inr st2 \<and>
      marketPositions st2 (positionId (toHexString (redeemer redemption)) mm 0) = Some p \<and>
      valueSold p = valueSold position + 75 \<and>
      quantitySold p = quantitySold position + 100 \<and>
      netQuantity p = 0"
proof -
  from handleConditionResolution_3_1 [OF assms(1,2)]
  obtain st1 c1 where r: "handleConditionResolution st resolution = Inr st1"
    "conditions st1 (toHexString (cr_conditionId resolution)) = Some c1"
    "payoutNumerators c1 = Some [3, 1]" "payoutDenominator c1 = Some 4"
    "payouts c1 = Some [3 / 4, 1 / 4]" "marketPositions st1 = marketPositions st"
    by blast
  have c: "conditions st1 (toHexString (pr_conditionId redemption)) = Some c1"
    using r(2) assms(3) by simp
  have p: "marketPositions st1 (positionId (toHexString (redeemer redemption)) mm 0)
      = Some position"
    using r(6) assms(5) by simp
  from redeem_100_of_3_1 [OF c r(3,4) assms(4) p assms(6,7)]
  obtain st2 p where "updateMarketPositionsFromRedemption st1 mm redemption = Inr st2"
    "marketPositions st2 (positionId (toHexString (redeemer redemption)) mm 0) = Some p"
    "valueSold p = valueSold position + 75" "quantitySold p = quantitySold position + 100"
    "netQuantity p = 0"
    by blast
  with r show ?thesis by simp
qed

theorem resolution_3_1_then_redeem_witness:
  "conditions example_holding_store ''0xc1'' = Some example_condition \<and>
   cr_payoutNumerators example_resolution = [3, 1] \<and>
   marketPositions example_holding_store ''0x0a0x4d0'' = Some example_position \<and>
   netQuantity example_position = 100 \<and>
   quantityBought example_position - quantitySold example_position = 100 \<and>
   (\<exists>st1 c1 st2 p.
      handleConditionResolution example_holding_store example_resolution = Inr st1 \<and>
      conditions st1 ''0xc1'' = Some c1 \<and>
      payoutNumerators c1 = Some [3, 1] \<and> payoutDenominator c1 = Some 4 \<and>
      payouts c1 = Some [75 / 100, 25 / 100] \<and>
      updateMarketPositionsFromRedemption st1 ''0x4d'' example_redemption = Inr st2 \<and>
      marketPositions st2 ''0x0a0x4d0'' = Some p \<and>
      valueSold p = 75 \<and> quantitySold p = 100 \<and> netQuantity p = 0)"
proof -
  have r: "cr_conditionId example_resolution = [0xC1]"
    "cr_payoutNumerators example_resolution = [3, 1]"
    by (simp_all add: example_resolution_def)
  have c: "conditions example_holding_store (toHexString (cr_conditionId example_resolution))
      = Some example_condition"
    by (simp add: r example_hex example_resolved_tables example_store_tables)
  have p: "marketPositions example_holding_store
      (positionId (toHexString (redeemer example_redemption)) ''0x4d'' 0) = Some example_position"
    by (simp add: example_redemption_fields example_hex example_positionId
        example_resolved_tables)
  have q: "netQuantity example_position = 100"
    "quantityBought example_position - quantitySold example_position = 100"
    "valueSold example_position = 0" "quantitySold example_position = 0"
    by (simp_all add: example_position_def)
  have e: "pr_conditionId example_redemption = cr_conditionId example_resolution"
    by (simp add: r example_redemption_fields)
  show ?thesis
    using resolution_3_1_then_redeem
      [OF c r(2) e example_redemption_fields(3) p q(1,2)] c p q
    by (simp add: r example_hex example_redemption_fields example_positionId)
qed

text \<open>
  C4. A \<open>PositionSplit\<close> or \<open>PositionsMerge\<close> event whose stakeholder is a tracked market
  maker, the NegRiskAdapter or the Exchange makes its handler return at once: the store
  is left as it is, so no position changes and no \<open>Split\<close> or \<open>Merge\<close> row is saved either
  (the row is built only after the two guards).
\<close>

theorem filtered_events_change_nothing:
  assumes "marketMakers st (toHexString (stakeholder event)) \<noteq> None \<or>
           toHexString (stakeholder event) = NegRiskAdapter_address env \<or>
           toHexString (stakeholder event) = Exchange_address env"
  shows "handlePositionSplit env st event = Inr st \<and> handlePositionsMerge env st event = Inr st"
  using assms by (auto simp: handlePositionSplit_def handlePositionsMerge_def)

theorem filtered_events_change_nothing_witness:
  "marketMakers example_store (toHexString (stakeholder (example_split\<lparr>stakeholder := [0x4D]\<rparr>)))
     \<noteq> None \<and>
   handlePositionSplit example_env example_store (example_split\<lparr>stakeholder := [0x4D]\<rparr>)
     = Inr example_store \<and>
   handlePositionsMerge example_env example_store (example_split\<lparr>stakeholder := [0x4D]\<rparr>)
     = Inr example_store"
  using filtered_events_change_nothing
    [of example_store "example_split\<lparr>stakeholder := [0x4D]\<rparr>" example_env]
  by (simp add: example_hex example_store_tables)

theorem filtered_split_saves_no_row:
  "handlePositionSplit example_env example_store (example_split\<lparr>stakeholder := [0x4D]\<rparr>)
     = Inr example_store \<and>
   handlePositionsMerge example_env example_store (example_split\<lparr>stakeholder := [0xA1]\<rparr>)
     = Inr example_store \<and>
   splits example_store (getEventKey example_env (event_base example_split)) = None \<and>
   merges example_store (getEventKey example_env (event_base example_split)) = None"
proof -
  have "toHexString [0xA1] = ''0xa1''" by (simp add: toHexString_def hex_char_def)
  then show ?thesis
    by (simp add: handlePositionSplit_def handlePositionsMerge_def example_hex
        example_store_tables example_env_fields)
qed

text \<open>
  C5. \<open>handlePositionSplit\<close> has no check for an event key it has already applied. When
  the same event is applied twice, the second application raises the quantity bought
  of every position by exactly what the first one raised it; for a stakeholder that is
  not filtered, a full partition and a condition with one market maker, both
  applications return and each adds the event's amount to the position of every outcome
  index of the market maker. From an empty position, an amount of 10 gives 10 and then
  20.
\<close>

theorem replayed_split_adds_again:
  assumes "helpers_keep_ledger env"
  shows
    "(\<forall>st1 st2 usr mkt idx.
        handlePositionSplit env st event = Inr st1 \<and> handlePositionSplit env st1 event = Inr st2
        \<longrightarrow> quantityBought (getMarketPosition st2 usr mkt idx)
              - quantityBought (getMarketPosition st1 usr mkt idx)
            = quantityBought (getMarketPosition st1 usr mkt idx)
              - quantityBought (getMarketPosition st usr mkt idx)) \<and>
     (marketMakers st (toHexString (stakeholder event)) = None \<and>
      toHexString (stakeholder event) \<noteq> NegRiskAdapter_address env \<and>
      toHexString (stakeholder event) \<noteq> Exchange_address env \<and>
      conditions st (toHexString (conditionId event)) = Some condition \<and>
      partitionCheck env (partition event) (outcomeSlotCount condition) \<and>
      fixedProductMarketMakers condition = [mm] \<and>
      marketMakers st mm = Some maker \<and> 0 \<le> i \<and> i < fpmm_outcomeSlotCount maker
      \<longrightarrow> (\<exists>st1 st2.
             handlePositionSplit env st event = Inr st1 \<and>
             handlePositionSplit env st1 event = Inr st2 \<and>
             quantityBought (getMarketPosition st1 (toHexString (stakeholder event)) mm i)
               = quantityBought (getMarketPosition st (toHexString (stakeholder event)) mm i)
                 + amount event \<and>
             quantityBought (getMarketPosition st2 (toHexString (stakeholder event)) mm i)
               = quantityBought (getMarketPosition st1 (toHexString (stakeholder event)) mm i)
                 + amount event))"
proof (intro conjI allI impI)
  fix st1 st2 usr mkt idx
  assume "handlePositionSplit env st event = Inr st1 \<and> handlePositionSplit env st1 event = Inr st2"
  then show "quantityBought (getMarketPosition st2 usr mkt idx)
              - quantityBought (getMarketPosition st1 usr mkt idx)
            = quantityBought (getMarketPosition st1 usr mkt idx)
              - quantityBought (getMarketPosition st usr mkt idx)"
    using replayed_split_same_increase [OF assms, of st event st1 st2 "positionId usr mkt idx"]
    by (simp add: getMarketPosition_fields)
next
  assume "marketMakers st (toHexString (stakeholder event)) = None \<and>
      toHexString (stakeholder event) \<noteq> NegRiskAdapter_address env \<and>
      toHexString (stakeholder event) \<noteq> Exchange_address env \<and>
      conditions st (toHexString (conditionId event)) = Some condition \<and>
      partitionCheck env (partition event) (outcomeSlotCount condition) \<and>
      fixedProductMarketMakers condition = [mm] \<and>
      marketMakers st mm = Some maker \<and> 0 \<le> i \<and> i < fpmm_outcomeSlotCount maker"
  then show "\<exists>st1 st2.
             handlePositionSplit env st event = Inr st1 \<and>
             handlePositionSplit env st1 event = Inr st2 \<and>
             quantityBought (getMarketPosition st1 (toHexString (stakeholder event)) mm i)
               = quantityBought (getMarketPosition st (toHexString (stakeholder event)) mm i)
                 + amount event \<and>
             quantityBought (getMarketPosition st2 (toHexString (stakeholder event)) mm i)
               = quantityBought (getMarketPosition st1 (toHexString (stakeholder event)) mm i)
                 + amount event"
    using replayed_split_single [OF assms, of st event condition mm maker i] by blast
qed

theorem replayed_split_adds_again_witness:
  "helpers_keep_ledger example_env \<and>
   marketMakers example_store ''0x0a'' = None \<and>
   conditions example_store ''0xc1'' = Some example_condition \<and>
   isFullPartition [1, 2] 2 \<and>
   (\<exists>st1 st2.
      handlePositionSplit example_env example_store example_split = Inr st1 \<and>
      handlePositionSplit example_env st1 example_split = Inr st2 \<and>
      quantityBought (getMarketPosition example_store ''0x0a'' ''0x4d'' 1) = 0 \<and>
      quantityBought (getMarketPosition st1 ''0x0a'' ''0x4d'' 1) = 10 \<and>
      quantityBought (getMarketPosition st2 ''0x0a'' ''0x4d'' 1) = 20)"
proof -
  have z: "quantityBought (getMarketPosition example_store ''0x0a'' ''0x4d'' 1) = 0"
    by (simp add: getMarketPosition_def MarketPosition_load_def example_store_tables bigZero_def)
  show ?thesis
    using replayed_split_adds_again
      [OF example_helpers_keep_ledger, where st = example_store and event = example_split
        and condition = example_condition and mm = "''0x4d''"
        and maker = "\<lparr>fpmm_outcomeSlotCount = 2, outcomeTokenPrices = [1 / 2, 1 / 2]\<rparr>"
        and i = 1]
    by (auto simp: z example_helpers_keep_ledger example_env_fields example_split_fields
        example_hex example_store_tables example_full_partition example_condition_fields)
qed

theorem replayed_split_doubles:
  "\<not> isl (handlePositionSplit example_env example_store example_split) \<and>
   \<not> isl (handlePositionSplit example_env
            (projr (handlePositionSplit example_env example_store example_split))
            example_split) \<and>
   quantityBought
     (getMarketPosition
        (projr (handlePositionSplit example_env example_store example_split))
        ''0x0a'' ''0x4d'' 0) = 10 \<and>
   quantityBought
     (getMarketPosition
        (projr (handlePositionSplit example_env
                  (projr (handlePositionSplit example_env example_store example_split))
                  example_split))
        ''0x0a'' ''0x4d'' 0) = 20"
proof -
  have z: "quantityBought (getMarketPosition example_store ''0x0a'' ''0x4d'' 0) = 0"
    by (simp add: getMarketPosition_def MarketPosition_load_def example_store_tables bigZero_def)
  from replayed_split_single
    [OF example_helpers_keep_ledger, of example_store example_split example_condition "''0x4d''"
      "\<lparr>fpmm_outcomeSlotCount = 2, outcomeTokenPrices = [1 / 2, 1 / 2]\<rparr>" 0]
  obtain st1 st2 where
    "handlePositionSplit example_env example_store example_split = Inr st1"
    "handlePositionSplit example_env st1 example_split = Inr st2"
    "quantityBought (getMarketPosition st1 ''0x0a'' ''0x4d'' 0) = 10"
    "quantityBought (getMarketPosition st2 ''0x0a'' ''0x4d'' 0) = 20"
    by (auto simp: z example_env_fields example_split_fields example_hex example_store_tables
        example_full_partition example_condition_fields)
  then show ?thesis by simp
qed

text \<open>
  C6. When a position has sold more than it has bought, \<open>updateNetPositionAndSave\<close>
  appends one error line naming the user, the outcome index and the market to the log,
  and saves the position with its negative net quantity. The function has no path that
  stops the handler: its result is a store.
\<close>

theorem negative_net_reported_and_saved:
  assumes "quantityBought p < quantitySold p"
  shows "logs (updateNetPositionAndSave st p) =
           logs st @ [LogError
             ''Invalid position: user {} has negative netQuantity on outcome {} on market {}''
             [user p, BigInt_toString (outcomeIndex p), market p]] \<and>
         marketPositions (updateNetPositionAndSave st p) (mp_id p) =
           Some (p\<lparr>netQuantity := quantityBought p - quantitySold p,
                   netValue := valueBought p - valueSold p\<rparr>) \<and>
         quantityBought p - quantitySold p < 0"
  using assms
  by (simp add: updateNetPositionAndSave_def Let_def MarketPosition_save_def log_error_def
      bigZero_def)

theorem negative_net_reported_and_saved_witness:
  "quantityBought ((getMarketPosition empty_store ''0x0a'' ''0x4d'' 0)\<lparr>quantitySold := 5\<rparr>)
     < quantitySold ((getMarketPosition empty_store ''0x0a'' ''0x4d'' 0)\<lparr>quantitySold := 5\<rparr>) \<and>
   logs (updateNetPositionAndSave empty_store
           ((getMarketPosition empty_store ''0x0a'' ''0x4d'' 0)\<lparr>quantitySold := 5\<rparr>)) =
     [LogError ''Invalid position: user {} has negative netQuantity on outcome {} on market {}''
        [''0x0a'', ''0'', ''0x4d'']] \<and>
   map_option netQuantity
     (marketPositions
        (updateNetPositionAndSave empty_store
           ((getMarketPosition empty_store ''0x0a'' ''0x4d'' 0)\<lparr>quantitySold := 5\<rparr>))
        ''0x0a0x4d0'') = Some (- 5)"
proof -
  have l: "logs empty_store = []" by (simp add: empty_store_def)
  have p: "getMarketPosition empty_store ''0x0a'' ''0x4d'' 0 =
      \<lparr>mp_id = ''0x0a0x4d0'', market = ''0x4d'', user = ''0x0a'', outcomeIndex = 0,
       quantityBought = 0, quantitySold = 0, netQuantity = 0, valueBought = 0,
       valueSold = 0, netValue = 0\<rparr>"
    by (simp add: getMarketPosition_def MarketPosition_load_def empty_store_def positionId_def
        BigInt_toString_def nat_toString_digits bigZero_def)
  show ?thesis
    using negative_net_reported_and_saved
      [of "(getMarketPosition empty_store ''0x0a'' ''0x4d'' 0)\<lparr>quantitySold := 5\<rparr>" empty_store]
    by (simp add: p l BigInt_toString_def nat_toString_digits)
qed

text \<open>
  C7. A trade whose transaction record is missing stops \<open>updateMarketPositionFromTrade\<close>
  with the thrown error, after one error line, and with the positions as they were. An
  unknown condition makes \<open>handleConditionResolution\<close> return after one error line with
  the entities as they were. An unknown condition makes \<open>handlePositionSplit\<close>,
  \<open>handlePositionsMerge\<close> and \<open>handlePayoutRedemption\<close> (for an actor that is not
  filtered, and helpers that keep the ledger) return after the error line with the
  positions as they were, but with the audit row of the event already saved: for a
  split on the empty store, the row and the account are written.
\<close>

theorem missing_reference_handling:
  "(transactions st (toHexString (transaction_hash trade)) = None \<longrightarrow>
      (\<exists>st'. updateMarketPositionFromTrade st trade
             = Inl (Abort (Thrown ''Could not find transaction with hash'') st') \<and>
         logs st' = logs st @ [LogError ''Could not find a transaction with hash: {}''
                                 [Bytes_toString (transaction_hash trade)]] \<and>
         marketPositions st' = marketPositions st)) \<and>
   (conditions st (toHexString (cr_conditionId resolution)) = None \<longrightarrow>
      (\<exists>st'. handleConditionResolution st resolution = Inr st' \<and>
         logs st' = logs st @ [LogError ''could not find condition {} to resolve''
                                 [toHexString (cr_conditionId resolution)]] \<and>
         marketPositions st' = marketPositions st \<and> conditions st' = conditions st \<and>
         globals st' = globals st)) \<and>
   (helpers_keep_ledger env \<and>
    marketMakers st (toHexString (stakeholder splitEv)) = None \<and>
    toHexString (stakeholder splitEv) \<noteq> NegRiskAdapter_address env \<and>
    toHexString (stakeholder splitEv) \<noteq> Exchange_address env \<and>
    conditions st (toHexString (conditionId splitEv)) = None \<longrightarrow>
      (\<exists>st'. handlePositionSplit env st splitEv = Inr st' \<and>
         last (logs st') = LogError ''Failed to update market positions: condition {} not prepared''
                             [toHexString (conditionId splitEv)] \<and>
         marketPositions st' = marketPositions st \<and>
         splits st' (getEventKey env (event_base splitEv)) \<noteq> None)) \<and>
   (helpers_keep_ledger env \<and>
    marketMakers st (toHexString (stakeholder mergeEv)) = None \<and>
    toHexString (stakeholder mergeEv) \<noteq> NegRiskAdapter_address env \<and>
    toHexString (stakeholder mergeEv) \<noteq> Exchange_address env \<and>
    conditions st (toHexString (conditionId mergeEv)) = None \<longrightarrow>
      (\<exists>st'. handlePositionsMerge env st mergeEv = Inr st' \<and>
         last (logs st') = LogError ''Failed to update market positions: condition {} not prepared''
                             [toHexString (conditionId mergeEv)] \<and>
         marketPositions st' = marketPositions st \<and>
         merges st' (getEventKey env (event_base mergeEv)) \<noteq> None)) \<and>
   (helpers_keep_ledger env \<and>
    toHexString (redeemer redemption) \<noteq> NegativeRiskAdapter_address env \<and>
    conditions st (toHexString (pr_conditionId redemption)) = None \<longrightarrow>
      (\<exists>st'. handlePayoutRedemption env st redemption = Inr st' \<and>
         last (logs st') = LogError ''Failed to update market positions: condition {} not prepared''
                             [toHexString (pr_conditionId redemption)] \<and>
         marketPositions st' = marketPositions st \<and>
         redemptions st' (getEventKey env (pr_event_base redemption)) \<noteq> None))"
proof (intro conjI impI)
  assume "transactions st (toHexString (transaction_hash trade)) = None"
  then show "\<exists>st'. updateMarketPositionFromTrade st trade
             = Inl (Abort (Thrown ''Could not find transaction with hash'') st') \<and>
         logs st' = logs st @ [LogError ''Could not find a transaction with hash: {}''
                                 [Bytes_toString (transaction_hash trade)]] \<and>
         marketPositions st' = marketPositions st"
    by (simp add: updateMarketPositionFromTrade_def log_error_frame)
next
  assume "conditions st (toHexString (cr_conditionId resolution)) = None"
  then show "\<exists>st'. handleConditionResolution st resolution = Inr st' \<and>
         logs st' = logs st @ [LogError ''could not find condition {} to resolve''
                                 [toHexString (cr_conditionId resolution)]] \<and>
         marketPositions st' = marketPositions st \<and> conditions st' = conditions st \<and>
         globals st' = globals st"
    by (simp add: handleConditionResolution_def Condition_load_def log_error_frame)
next
  assume a: "helpers_keep_ledger env \<and>
    marketMakers st (toHexString (stakeholder splitEv)) = None \<and>
    toHexString (stakeholder splitEv) \<noteq> NegRiskAdapter_address env \<and>
    toHexString (stakeholder splitEv) \<noteq> Exchange_address env \<and>
    conditions st (toHexString (conditionId splitEv)) = None"
  from handlePositionSplit_recorded [of env st splitEv] a
  obtain st4 where st4: "same_ledger st st4"
    "splits st4 (getEventKey env (event_base splitEv)) \<noteq> None"
    "handlePositionSplit env st splitEv =
        (case Condition_load st4 (toHexString (conditionId splitEv)) of
           None \<Rightarrow>
             Inr (log_error st4 ''Failed to update market positions: condition {} not prepared''
                    [toHexString (conditionId splitEv)])
         | Some condition \<Rightarrow>
             if partitionCheck env (partition splitEv) (outcomeSlotCount condition)
             then split_marketMakers st4 (fixedProductMarketMakers condition) splitEv
             else Inr st4)"
    by auto
  have "Condition_load st4 (toHexString (conditionId splitEv)) = None"
    using st4(1) a by (simp add: Condition_load_def same_ledger_def)
  with st4 show "\<exists>st'. handlePositionSplit env st splitEv = Inr st' \<and>
         last (logs st') = LogError ''Failed to update market positions: condition {} not prepared''
                             [toHexString (conditionId splitEv)] \<and>
         marketPositions st' = marketPositions st \<and>
         splits st' (getEventKey env (event_base splitEv)) \<noteq> None"
    by (simp add: log_error_frame same_ledger_def)
next
  assume a: "helpers_keep_ledger env \<and>
    marketMakers st (toHexString (stakeholder mergeEv)) = None \<and>
    toHexString (stakeholder mergeEv) \<noteq> NegRiskAdapter_address env \<and>
    toHexString (stakeholder mergeEv) \<noteq> Exchange_address env \<and>
    conditions st (toHexString (conditionId mergeEv)) = None"
  from handlePositionsMerge_recorded [of env st mergeEv] a
  obtain st4 where st4: "same_ledger st st4"
    "merges st4 (getEventKey env (event_base mergeEv)) \<noteq> None"
    "handlePositionsMerge env st mergeEv =
        (case Condition_load st4 (toHexString (conditionId mergeEv)) of
           None \<Rightarrow>
             Inr (log_error st4 ''Failed to update market positions: condition {} not prepared''
                    [toHexString (conditionId mergeEv)])
         | Some condition \<Rightarrow>
             if partitionCheck env (partition mergeEv) (outcomeSlotCount condition)
             then merge_marketMakers st4 (fixedProductMarketMakers condition) mergeEv
             else Inr st4)"
    by auto
  have "Condition_load st4 (toHexString (conditionId mergeEv)) = None"
    using st4(1) a by (simp add: Condition_load_def same_ledger_def)
  with st4 show "\<exists>st'. handlePositionsMerge env st mergeEv = Inr st' \<and>
         last (logs st') = LogError ''Failed to update market positions: condition {} not prepared''
                             [toHexString (conditionId mergeEv)] \<and>
         marketPositions st' = marketPositions st \<and>
         merges st' (getEventKey env (event_base mergeEv)) \<noteq> None"
    by (simp add: log_error_frame same_ledger_def)
next
  assume a: "helpers_keep_ledger env \<and>
    toHexString (redeemer redemption) \<noteq> NegativeRiskAdapter_address env \<and>
    conditions st (toHexString (pr_conditionId redemption)) = None"
  from handlePayoutRedemption_recorded [of env redemption st] a
  obtain st4 where st4: "same_ledger st st4"
    "redemptions st4 (getEventKey env (pr_event_base redemption)) \<noteq> None"
    "handlePayoutRedemption env st redemption =
        (case Condition_load st4 (toHexString (pr_conditionId redemption)) of
           None \<Rightarrow>
             Inr (log_error st4 ''Failed to update market positions: condition {} not prepared''
                    [toHexString (pr_conditionId redemption)])
         | Some condition \<Rightarrow>
             redemption_marketMakers st4 (fixedProductMarketMakers condition) redemption)"
    by auto
  have "Condition_load st4 (toHexString (pr_conditionId redemption)) = None"
    using st4(1) a by (simp add: Condition_load_def same_ledger_def)
  with st4 show "\<exists>st'. handlePayoutRedemption env st redemption = Inr st' \<and>
         last (logs st') = LogError ''Failed to update market positions: condition {} not prepared''
                             [toHexString (pr_conditionId redemption)] \<and>
         marketPositions st' = marketPositions st \<and>
         redemptions st' (getEventKey env (pr_event_base redemption)) \<noteq> None"
    by (simp add: log_error_frame same_ledger_def)
qed

theorem missing_reference_handling_witness:
  "transactions empty_store (toHexString (transaction_hash example_event)) = None \<and>
   conditions empty_store ''0xc1'' = None \<and>
   helpers_keep_ledger example_env \<and>
   marketMakers empty_store ''0x0a'' = None \<and>
   (\<exists>st'. updateMarketPositionFromTrade empty_store example_event
          = Inl (Abort (Thrown ''Could not find transaction with hash'') st') \<and>
      marketPositions st' = Map.empty) \<and>
   (\<exists>st'. handleConditionResolution empty_store example_resolution = Inr st' \<and>
      logs st' = [LogError ''could not find condition {} to resolve'' [''0xc1'']] \<and>
      conditions st' = Map.empty) \<and>
   (\<exists>st'. handlePositionSplit example_env empty_store example_split = Inr st' \<and>
      last (logs st') = LogError ''Failed to update market positions: condition {} not prepared''
                          [''0xc1''] \<and>
      marketPositions st' = Map.empty \<and> splits st' ''0x7f7'' \<noteq> None) \<and>
   (\<exists>st'. handlePositionsMerge example_env empty_store example_split = Inr st' \<and>
      marketPositions st' = Map.empty \<and> merges st' ''0x7f7'' \<noteq> None) \<and>
   (\<exists>st'. handlePayoutRedemption example_env empty_store example_redemption = Inr st' \<and>
      marketPositions st' = Map.empty \<and> redemptions st' ''0x7f7'' \<noteq> None)"
proof -
  have r: "cr_conditionId example_resolution = [0xC1]" by (simp add: example_resolution_def)
  show ?thesis
    using missing_reference_handling
      [where st = empty_store and trade = example_event and resolution = example_resolution
        and env = example_env and splitEv = example_split and mergeEv = example_split
        and redemption = example_redemption]
    by (auto simp: empty_store_tables example_helpers_keep_ledger example_env_fields
        example_split_fields example_redemption_fields example_hex example_event_key r)
qed

theorem missing_condition_split_writes_row:
  "conditions empty_store (toHexString (conditionId example_split)) = None \<and>
   splits empty_store ''0x7f7'' = None \<and> accounts empty_store ''0x0a'' = None \<and>
   handlePositionSplit example_env empty_store example_split =
     Inr (empty_store
           \<lparr>splits :=
              [''0x7f7'' \<mapsto>
                 \<lparr>row_timestamp = 1000, row_stakeholder = ''0x0a'', row_collateralToken = ''0x05'',
                  row_parentCollectionId = [], row_condition = ''0xc1'',
                  row_partition = [1, 2], row_amount = 10\<rparr>],
            accounts := [''0x0a'' \<mapsto> \<lparr>creationTimestamp = 1000, lastSeenTimestamp = 1000\<rparr>],
            logs := [LogError ''Failed to update market positions: condition {} not prepared''
                       [''0xc1'']]\<rparr>)"
proof -
  have e: "block_timestamp example_event = 1000" by (simp add: example_event_def)
  show ?thesis
    by (simp add: handlePositionSplit_def Let_def example_env_fields example_split_fields
        example_hex example_event_key e getCollateralDetails_spec_def requireAccount_spec_def
        markAccountAsSeen_spec_def Condition_load_def log_error_def empty_store_def)
qed

text \<open>
  C8. For every \<open>k \<le> 30\<close>, the index set \<open>2 ^ k\<close> decodes to the outcome index
  \<open>k\<close>; the index set 4 decodes to 2 and the list \<open>[1, 2, 4]\<close> to \<open>[0, 1, 2]\<close>. The
  bound is needed: the index set is narrowed to an \<open>i32\<close> first. The index set \<open>2 ^ 31\<close>
  comes out of the narrowing as \<open>- 2 ^ 31\<close>, which the first shifted bit already
  exceeds, and decodes to the index 0; from \<open>2 ^ 32\<close> on the narrowing stops the
  handler, as for \<open>2 ^ 40\<close>.
\<close>

theorem decode_single_bit:
  "(k \<le> 30 \<longrightarrow> decodeIndexSet (2 ^ k) = Inr (int k)) \<and>
   decodeIndexSet 4 = Inr 2 \<and>
   map decodeIndexSet [1, 2, 4] = [Inr 0, Inr 1, Inr 2] \<and>
   decodeIndexSet (2 ^ 31) = Inr 0 \<and>
   (32 \<le> j \<longrightarrow> decodeIndexSet (2 ^ j) = Inl (Abort I32Overflow ()))"
  using decodeIndexSet_power [of k] decodeIndexSet_power [of 0] decodeIndexSet_power [of 1]
    decodeIndexSet_power [of 2] decodeIndexSet_sign_bit decodeIndexSet_overflow [of j]
  by simp

theorem decode_single_bit_witness:
  "(5::nat) \<le> 30 \<and> decodeIndexSet 32 = Inr 5 \<and> decodeIndexSet 4 = Inr 2 \<and>
   map decodeIndexSet [1, 2, 4] = [Inr 0, Inr 1, Inr 2] \<and>
   decodeIndexSet (2 ^ 31) = Inr 0 \<and>
   (32::nat) \<le> 33 \<and> decodeIndexSet (2 ^ 33) = Inl (Abort I32Overflow ())"
  using decode_single_bit [of 5 33] by simp

theorem decode_pow40_overflows: "decodeIndexSet (2 ^ 40) = Inl (Abort I32Overflow ())"
  by (simp add: decodeIndexSet_def toI32_def)

text \<open>
  C9. For every index set between \<open>- 2 ^ 31\<close> and \<open>2 ^ 30\<close>, a power of two or not, the
  loop returns the least \<open>k\<close> with \<open>indexSet \<le> 2 ^ k\<close>; the index set 3 decodes to the
  index 2, a bit that 3 does not have; and a redemption of one index set writes no
  position but the one of that index. Above \<open>2 ^ 30\<close> no shifted bit reaches the index
  set and the loop never ends, as for \<open>2 ^ 30 + 1\<close>.
\<close>

theorem decode_least_power:
  assumes "- (2 ^ 31) \<le> indexSet" and "indexSet \<le> 2 ^ 30"
  shows "(\<exists>k\<le>30. decodeIndexSet indexSet = Inr (int k) \<and> indexSet \<le> 2 ^ k \<and> (\<forall>j<k. 2 ^ j < indexSet)) \<and>
    decodeIndexSet 3 = Inr 2 \<and> \<not> bit (3::int) 2 \<and>
    (\<forall>st'. redemption_loop st usr mkt numerators denominator [indexSet] = Inr st' \<longrightarrow>
       (\<exists>k. decodeIndexSet indexSet = Inr k \<and>
          (\<forall>key. key \<noteq> positionId usr mkt k \<longrightarrow>
             marketPositions st' key = marketPositions st key)))"
proof -
  have "outcomeIndex_loop 3 2 = Some 2"
    by (subst outcomeIndex_loop.simps) (simp add: shl_i32_def i32_def)
  then have "outcomeIndex_loop 3 1 = Some 2"
    by (subst outcomeIndex_loop.simps) (simp add: shl_i32_def i32_def)
  then have "outcomeIndex_loop 3 0 = Some 2"
    by (subst outcomeIndex_loop.simps) (simp add: shl_i32_def i32_def)
  then have three: "decodeIndexSet 3 = Inr 2"
    by (simp add: decodeIndexSet_def toI32_def i32_def)
  have nb: "\<not> bit (3::int) 2" by (simp add: bit_iff_odd)
  show ?thesis
    using decodeIndexSet_least [OF assms] three nb redemption_loop_single by blast
qed

theorem decode_least_power_witness:
  "- (2 ^ 31) \<le> (5::int) \<and> (5::int) \<le> 2 ^ 30 \<and>
   (\<exists>k\<le>30. decodeIndexSet 5 = Inr (int k) \<and> 5 \<le> (2::int) ^ k \<and> (\<forall>j<k. (2::int) ^ j < 5)) \<and>
   decodeIndexSet 3 = Inr 2"
  using decode_least_power [of 5] by simp

theorem decode_large_mask_diverges: "decodeIndexSet (2 ^ 30 + 1) = Inl Diverges"
proof -
  have "outcomeIndex_loop (2 ^ 30 + 1) 0 = None" by (rule outcomeIndex_loop_diverges) simp
  then show ?thesis by (simp add: decodeIndexSet_def toI32_def i32_def)
qed

text \<open>
  C10. The key of a position is the plain concatenation of user, market and outcome
  index, so the distinct triples \<open>(a, bc, 1)\<close> and \<open>(ab, c, 1)\<close> share the key \<open>abc1\<close>:
  once a position is saved for the first, \<open>getMarketPosition\<close> returns that very record,
  with the first user's balances, for the second.
\<close>

theorem positionId_collision:
  "positionId ''a'' ''bc'' 1 = ''abc1'' \<and> positionId ''ab'' ''c'' 1 = ''abc1'' \<and>
   (''a'', ''bc'', 1::int) \<noteq> (''ab'', ''c'', 1) \<and>
   (let st' = updateNetPositionAndSave st
                ((getMarketPosition st ''a'' ''bc'' 1)\<lparr>quantityBought := q\<rparr>)
    in getMarketPosition st' ''ab'' ''c'' 1 = getMarketPosition st' ''a'' ''bc'' 1 \<and>
       user (getMarketPosition st' ''ab'' ''c'' 1) = user (getMarketPosition st ''a'' ''bc'' 1) \<and>
       quantityBought (getMarketPosition st' ''ab'' ''c'' 1) = q)"
proof -
  have k: "positionId ''a'' ''bc'' 1 = ''abc1''" "positionId ''ab'' ''c'' 1 = ''abc1''"
    by (simp_all add: positionId_def BigInt_toString_def nat_toString_digits)
  show ?thesis
    by (simp add: k Let_def getMarketPosition_def MarketPosition_load_def save_positions
        split: option.splits)
qed

end
